theory Spec2Isabelle
  imports Complex_Main "HOL-Library.AList"
begin

section \<open>Parameters, the store, and Python values\<close>

text \<open>
  A zfit parameter is a Python object with a \<open>name\<close> and a current numeric value. Objects
  have identity (they are used as dictionary keys), so a parameter is referred to by its
  address in a store of objects; creating a parameter appends a new object to the store.
  Values of dtype float64 are idealised as real numbers.

  Names follow the source. An attribute \<open>self._a\<close> is the record field \<open>self_a\<close>, a
  method \<open>_m\<close> is \<open>m_impl\<close>, the constructor of a class \<open>C\<close> is \<open>C_init\<close>, and the
  properties \<open>x\<close>, \<open>_x_array\<close> and \<open>mu\<close> are \<open>x_property\<close>, \<open>x_array\<close> and
  \<open>mu_property\<close>. A failure is a value of \<open>exn\<close> on the left of a sum.
\<close>

type_synonym ref = nat

record Parameter =
  pname :: string
  pvalue :: real
  psource :: "ref option"

type_synonym store = "Parameter list"

definition name_of :: "store \<Rightarrow> ref \<Rightarrow> string" where
  "name_of h p = pname (h ! p)"

text \<open>
  An object whose \<open>psource\<close> is \<open>Some q\<close> is a holder that refers to the parameter \<open>q\<close>:
  its current value is the value that \<open>q\<close> holds.
\<close>

definition value_of :: "store \<Rightarrow> ref \<Rightarrow> real" where
  "value_of h p = (case psource (h ! p) of None \<Rightarrow> pvalue (h ! p) | Some q \<Rightarrow> pvalue (h ! q))"

text \<open>\<open>Parameter.set_value\<close>: the only mutation of the store besides allocation.\<close>

definition set_value :: "store \<Rightarrow> ref \<Rightarrow> real \<Rightarrow> store" where
  "set_value h p v = h[p := (h ! p)\<lparr>pvalue := v\<rparr>]"

datatype exn =
    ShapeIncompatibleError string
  | ValueError
  | TypeError
  | InvalidArgumentError

text \<open>
  An argument that is either one value or a Python sequence of values
  (\<open>numerical, list(numerical) or list(zfit.Parameter)\<close>).
\<close>

datatype 'a arg = One 'a | Many "'a list"

text \<open>An observed value: a literal number or an existing parameter.\<close>

datatype xval = Lit real | Ref ref

text \<open>
  Modelled from the spec: \<open>zfit.util.container.convert_to_container\<close> is not among the
  sources; a value that is not yet a container is wrapped into a one-element container, a
  sequence is kept in its order.
\<close>

fun convert_to_container :: "'a arg \<Rightarrow> 'a list" where
  "convert_to_container (One v) = [v]"
| "convert_to_container (Many vs) = vs"

text \<open>
  Modelled from the spec: \<open>zfit.core.parameter.convert_to_parameter\<close> is not among the
  sources; each element of \<open>x\<close> is converted into a new parameter-like holder of the given
  name, which wraps either the literal value or a reference to the parameter given.
\<close>

fun convert_to_parameter :: "store \<Rightarrow> xval \<Rightarrow> string \<Rightarrow> ref \<times> store" where
  "convert_to_parameter h (Lit v) nm =
     (length h, h @ [\<lparr>pname = nm, pvalue = v, psource = None\<rparr>])"
| "convert_to_parameter h (Ref q) nm =
     (length h, h @ [\<lparr>pname = nm, pvalue = value_of h q, psource = Some q\<rparr>])"

subsection \<open>Rendering of sizes in messages\<close>

text \<open>Python's \<open>str\<close> of a non-negative integer, as an f-string renders a length.\<close>

fun str_nat :: "nat \<Rightarrow> string" where
  "str_nat n =
     (if n < 10 then [''0123456789'' ! n]
      else str_nat (n div 10) @ [''0123456789'' ! (n mod 10)])"

declare str_nat.simps [simp del]

text \<open>
  The message of the length check in \<open>SamplableConstraint.__init__\<close>: two adjacent string
  literals, the second an f-string with both lengths.
\<close>

definition lengths_message :: "nat \<Rightarrow> nat \<Rightarrow> string" where
  "lengths_message len_x len_params =
     ''x and params have to be the same lenght. Currently'' @
     ''x: '' @ str_nat len_x @ '', params: '' @ str_nat len_params"

subsection \<open>Dictionaries\<close>

text \<open>
  A Python dict keeps insertion order and one entry per key; a later store under an
  existing key replaces the value in place. A dict comprehension inserts its items in
  order.
\<close>

type_synonym ('k, 'v) dict = "('k \<times> 'v) list"

definition dict_of :: "('k \<times> 'v) list \<Rightarrow> ('k, 'v) dict" where
  "dict_of kvs = fold (\<lambda>(k, v) d. AList.update k v d) kvs []"

definition dict_values :: "('k, 'v) dict \<Rightarrow> 'v list" where
  "dict_values d = map snd d"

section \<open>BaseConstraint\<close>

record BaseConstraint =
  self_name :: string
  self_params :: "(string, ref) dict"

text \<open>
  Modelled from the spec: \<open>BaseNumeric.__init__\<close> (zfit.core.baseobject) is not among the
  sources; it stores the name and the ordered mapping from slot name to parameter.
\<close>

definition BaseConstraint_init :: "(string, ref) dict \<Rightarrow> string \<Rightarrow> BaseConstraint" where
  "BaseConstraint_init params name = \<lparr>self_name = name, self_params = params\<rparr>"

section \<open>SamplableConstraint\<close>

record SamplableConstraint = BaseConstraint +
  self_x :: "ref list"

text \<open>
  The list comprehension
  \<^verbatim>\<open>[convert_to_parameter(x_, f"{p.name}_obs") for x_, p in zip(x, params.values())]\<close>,
  evaluated left to right; each conversion may allocate.
\<close>

fun convert_observed :: "store \<Rightarrow> (xval \<times> ref) list \<Rightarrow> ref list \<times> store" where
  "convert_observed h [] = ([], h)"
| "convert_observed h ((xv, p) # rest) =
     (let (r, h1) = convert_to_parameter h xv (name_of h p @ ''_obs'');
          (rs, h2) = convert_observed h1 rest
      in (r # rs, h2))"

definition SamplableConstraint_init ::
  "store \<Rightarrow> xval arg \<Rightarrow> (string, ref) dict \<Rightarrow> string \<Rightarrow> exn + SamplableConstraint \<times> store" where
  "SamplableConstraint_init h x_in params name =
     (let base = BaseConstraint_init params name;
          xs = convert_to_container x_in
      in if length xs \<noteq> length params
         then Inl (ShapeIncompatibleError (lengths_message (length xs) (length params)))
         else (let (x', h') = convert_observed h (zip xs (dict_values params))
               in Inr (\<lparr>self_name = self_name base, self_params = self_params base,
                         self_x = x'\<rparr>, h')))"

section \<open>Tensors\<close>

text \<open>
  A dense tensor: its shape and its entries in row-major order. \<open>ndims\<close> is the rank.
\<close>

datatype tensor = Tensor (shape: "nat list") (data: "real list")

definition ndims :: "tensor \<Rightarrow> nat" where
  "ndims t = length (shape t)"

text \<open>The results of a comprehension whose items may raise: the first failure wins.\<close>

fun collect :: "('e + 'a) list \<Rightarrow> 'e + 'a list" where
  "collect [] = Inr []"
| "collect (Inl e # rs) = Inl e"
| "collect (Inr a # rs) = (case collect rs of Inl e \<Rightarrow> Inl e | Inr as \<Rightarrow> Inr (a # as))"

text \<open>Packing equally shaped tensors along a new first axis; a ragged sequence is refused.\<close>

definition stack :: "tensor list \<Rightarrow> exn + tensor" where
  "stack ts =
     (case ts of
        [] \<Rightarrow> Inr (Tensor [0] [])
      | t # _ \<Rightarrow>
          if list_all (\<lambda>u. shape u = shape t) ts
          then Inr (Tensor (length ts # shape t) (concat (map data ts)))
          else Inl ValueError)"

text \<open>
  What \<open>sigma\<close> may be: a number, a parameter, or a (nested) sequence of these
  (\<open>numerical, list(numerical) or array/tensor\<close>).
\<close>

datatype pyval = Num real | Par ref | Seq "pyval list"

text \<open>
  \<open>z.convert_to_tensor\<close>: a number is a rank-0 tensor, a parameter is read at its current
  value, a sequence is packed.
\<close>

fun convert_to_tensor :: "store \<Rightarrow> pyval \<Rightarrow> exn + tensor" where
  "convert_to_tensor h (Num v) = Inr (Tensor [] [v])"
| "convert_to_tensor h (Par p) = Inr (Tensor [] [value_of h p])"
| "convert_to_tensor h (Seq vs) =
     (case collect (map (convert_to_tensor h) vs) of
        Inl e \<Rightarrow> Inl e
      | Inr ts \<Rightarrow> stack ts)"

text \<open>\<open>z.pow(t, 2.)\<close>, elementwise.\<close>

definition z_pow :: "tensor \<Rightarrow> nat \<Rightarrow> tensor" where
  "z_pow t k = Tensor (shape t) (map (\<lambda>v. v ^ k) (data t))"

text \<open>\<open>tf.linalg.tensor_diag\<close>: the entries of \<open>t\<close> on the diagonal, zero elsewhere.\<close>

definition tensor_diag :: "tensor \<Rightarrow> tensor" where
  "tensor_diag t =
     Tensor (shape t @ shape t)
       (concat (map (\<lambda>i. map (\<lambda>j. if i = j then data t ! i else 0) [0..<length (data t)])
                  [0..<length (data t)]))"

text \<open>\<open>tf.reshape\<close>: the same entries under a new shape of the same size.\<close>

definition reshape :: "tensor \<Rightarrow> nat list \<Rightarrow> exn + tensor" where
  "reshape t s =
     (if prod_list s = length (data t) then Inr (Tensor s (data t))
      else Inl InvalidArgumentError)"

text \<open>The f-string rendering of \<open>covariance.shape[0:2]\<close>.\<close>

definition str_shape2 :: "tensor \<Rightarrow> string" where
  "str_shape2 t = ''('' @ str_nat (shape t ! 0) @ '', '' @ str_nat (shape t ! 1) @ '')''"

text \<open>
  The message of the shape check in \<open>create_covariance\<close>: three adjacent f-strings with
  the length of x, the length of mu and the first two dimensions of the covariance.
\<close>

definition shapes_message :: "nat \<Rightarrow> nat \<Rightarrow> tensor \<Rightarrow> string" where
  "shapes_message len_x len_mu cov =
     ''x, mu and sigma have to have the same length. Currently'' @
     ''x: '' @ str_nat len_x @ '', mu: '' @ str_nat len_mu @ '', '' @
     ''covariance (from sigma): '' @ str_shape2 cov"

section \<open>The distribution backend\<close>

text \<open>
  Keyword arguments handed to a distribution factory, and the two ways
  \<open>dist_params\<close> and \<open>dist_kwargs\<close> may be given: a literal mapping, or a zero-argument
  callable. A callable runs in the current store; the closures of GaussianConstraint also
  read the \<open>_x\<close> of the constraint they belong to, which is passed as second argument.
\<close>

datatype argval = ArgParams "ref list" | ArgTensor tensor | ArgBool bool | ArgStr string

type_synonym kwargs = "(string, argval) dict"

datatype provider = Literal kwargs | Callable "store \<Rightarrow> ref list \<Rightarrow> exn + kwargs"

text \<open>
  tensorflow_probability is an external library: its multivariate normal factory, and the
  \<open>log_prob\<close> and \<open>sample\<close> methods of its distributions, are parameters of the model.
  A draw of \<open>n\<close> points is a list of \<open>n\<close> rows.
\<close>

record 'd backend =
  MultivariateNormalFullCovariance :: "store \<Rightarrow> kwargs \<Rightarrow> exn + 'd"
  log_prob :: "'d \<Rightarrow> tensor \<Rightarrow> exn + real"
  sample_rows :: "'d \<Rightarrow> nat \<Rightarrow> exn + real list list"

text \<open>
  The call \<^verbatim>\<open>f(**params, **kwargs, name=nm)\<close>: a keyword given twice is a TypeError.
\<close>

definition call_with_kwargs ::
  "(store \<Rightarrow> kwargs \<Rightarrow> exn + 'd) \<Rightarrow> store \<Rightarrow> kwargs \<Rightarrow> kwargs \<Rightarrow> string \<Rightarrow> exn + 'd" where
  "call_with_kwargs f h params kwargs nm =
     (if distinct (map fst params @ map fst kwargs @ [''name''])
      then f h (params @ kwargs @ [(''name'', ArgStr nm)])
      else Inl TypeError)"

text \<open>The slice \<^verbatim>\<open>sample[:, i]\<close> of a draw.\<close>

definition column :: "real list list \<Rightarrow> nat \<Rightarrow> exn + real list" where
  "column rows i =
     (if list_all (\<lambda>r. i < length r) rows then Inr (map (\<lambda>r. r ! i) rows)
      else Inl ValueError)"

section \<open>Methods of SamplableConstraint\<close>

text \<open>
  A method is a function of the store and of the object, and returns its result together
  with the object as the call leaves it.
\<close>

definition x_property ::
  "'z SamplableConstraint_scheme \<Rightarrow> ref list \<times> 'z SamplableConstraint_scheme" where
  "x_property self = (self_x self, self)"

definition x_array ::
  "store \<Rightarrow> 'z SamplableConstraint_scheme \<Rightarrow> (exn + tensor) \<times> 'z SamplableConstraint_scheme" where
  "x_array h self =
     (let (xs, self1) = x_property self
      in (convert_to_tensor h (Seq (map Par xs)), self1))"

section \<open>DistributionConstraint\<close>

record 'd DistributionConstraint = SamplableConstraint +
  self_distribution :: "store \<Rightarrow> kwargs \<Rightarrow> exn + 'd"
  dist_params :: provider
  dist_kwargs :: provider

definition DistributionConstraint_init ::
  "store \<Rightarrow> xval arg \<Rightarrow> (string, ref) dict \<Rightarrow> (store \<Rightarrow> kwargs \<Rightarrow> exn + 'd) \<Rightarrow> provider \<Rightarrow>
   provider option \<Rightarrow> string \<Rightarrow> exn + 'd DistributionConstraint \<times> store" where
  "DistributionConstraint_init h x_in params distribution d_params d_kwargs name =
     (case SamplableConstraint_init h x_in params name of
        Inl e \<Rightarrow> Inl e
      | Inr (s, h') \<Rightarrow>
          Inr (\<lparr>self_name = self_name s, self_params = self_params s, self_x = self_x s,
                self_distribution = distribution,
                dist_params = d_params,
                dist_kwargs = (case d_kwargs of Some k \<Rightarrow> k | None \<Rightarrow> Literal [])\<rparr>, h'))"

definition call_provider :: "provider \<Rightarrow> store \<Rightarrow> ref list \<Rightarrow> exn + kwargs" where
  "call_provider pr h sx = (case pr of Callable f \<Rightarrow> f h sx | Literal d \<Rightarrow> Inr d)"

definition distribution ::
  "store \<Rightarrow> ('d, 'z) DistributionConstraint_scheme \<Rightarrow>
   (exn + 'd) \<times> ('d, 'z) DistributionConstraint_scheme" where
  "distribution h self =
     (case call_provider (dist_params self) h (self_x self) of
        Inl e \<Rightarrow> (Inl e, self)
      | Inr params \<Rightarrow>
          (case call_provider (dist_kwargs self) h (self_x self) of
             Inl e \<Rightarrow> (Inl e, self)
           | Inr kwargs \<Rightarrow>
               (call_with_kwargs (self_distribution self) h params kwargs
                  (self_name self @ ''_tfp''), self)))"

definition value_impl ::
  "'d backend \<Rightarrow> store \<Rightarrow> ('d, 'z) DistributionConstraint_scheme \<Rightarrow>
   (exn + real) \<times> ('d, 'z) DistributionConstraint_scheme" where
  "value_impl bk h self =
     (let (d, self1) = distribution h self
      in case d of
           Inl e \<Rightarrow> (Inl e, self1)
         | Inr dobj \<Rightarrow>
             (let (xa, self2) = x_array h self1
              in case xa of
                   Inl e \<Rightarrow> (Inl e, self2)
                 | Inr x_tensor \<Rightarrow>
                     (case log_prob bk dobj x_tensor of
                        Inl e \<Rightarrow> (Inl e, self2)
                      | Inr lp \<Rightarrow> (Inr (- lp), self2))))"

definition "value" ::
  "'d backend \<Rightarrow> store \<Rightarrow> ('d, 'z) DistributionConstraint_scheme \<Rightarrow>
   (exn + real) \<times> ('d, 'z) DistributionConstraint_scheme" where
  "value bk h self = value_impl bk h self"

definition sample_impl ::
  "'d backend \<Rightarrow> store \<Rightarrow> nat \<Rightarrow> ('d, 'z) DistributionConstraint_scheme \<Rightarrow>
   (exn + real list list) \<times> ('d, 'z) DistributionConstraint_scheme" where
  "sample_impl bk h n self =
     (let (d, self1) = distribution h self
      in case d of
           Inl e \<Rightarrow> (Inl e, self1)
         | Inr dobj \<Rightarrow> (sample_rows bk dobj n, self1))"

text \<open>
  \<^verbatim>\<open>{p: sample[:, i] for i, p in enumerate(self.x)}\<close>
\<close>

definition sample ::
  "'d backend \<Rightarrow> store \<Rightarrow> nat \<Rightarrow> ('d, 'z) DistributionConstraint_scheme \<Rightarrow>
   (exn + (ref, real list) dict) \<times> ('d, 'z) DistributionConstraint_scheme" where
  "sample bk h n self =
     (let (s, self1) = sample_impl bk h n self
      in case s of
           Inl e \<Rightarrow> (Inl e, self1)
         | Inr rows \<Rightarrow>
             (let (xs, self2) = x_property self1
              in (case collect (map (\<lambda>(i, p). case column rows i of
                                                  Inl e \<Rightarrow> Inl e
                                                | Inr c \<Rightarrow> Inr (p, c))
                                  (enumerate 0 xs)) of
                    Inl e \<Rightarrow> Inl e
                  | Inr kvs \<Rightarrow> Inr (dict_of kvs), self2)))"

section \<open>GaussianConstraint\<close>

record 'd GaussianConstraint = "'d DistributionConstraint" +
  self_mu :: "ref list"
  self_covariance :: "store \<Rightarrow> ref list \<Rightarrow> exn + tensor"

text \<open>
  The closure \<open>create_covariance(mu, sigma)\<close>. It reads \<open>self._x_array\<close> when it runs;
  \<open>sx\<close> is the \<open>_x\<close> of the constraint at that moment.
\<close>

definition create_covariance :: "store \<Rightarrow> ref list \<Rightarrow> ref list \<Rightarrow> pyval \<Rightarrow> exn + tensor" where
  "create_covariance h sx mu sigma =
     (case convert_to_tensor h (Seq (map Par mu)) of
        Inl e \<Rightarrow> Inl e
      | Inr mu_t \<Rightarrow>
     (case convert_to_tensor h sigma of
        Inl e \<Rightarrow> Inl e
      | Inr sigma_t \<Rightarrow>
     (case convert_to_tensor h (Seq (map Par sx)) of
        Inl e \<Rightarrow> Inl e
      | Inr x_tensor \<Rightarrow>
     (case (if ndims sigma_t > 1 then Inr sigma_t
            else if ndims sigma_t = 1 then Inr (tensor_diag (z_pow sigma_t 2))
            else (case reshape sigma_t [1] of
                    Inl e \<Rightarrow> Inl e
                  | Inr sigma1 \<Rightarrow> Inr (tensor_diag (z_pow sigma1 2)))) of
        Inl e \<Rightarrow> Inl e
      | Inr covariance \<Rightarrow>
          if \<not> (shape x_tensor ! 0 = shape mu_t ! 0 \<and>
                 shape mu_t ! 0 = shape covariance ! 0 \<and>
                 shape covariance ! 0 = shape covariance ! 1)
          then Inl (ShapeIncompatibleError
                 (shapes_message (shape x_tensor ! 0) (shape mu_t ! 0) covariance))
          else Inr covariance))))"

definition GaussianConstraint_init ::
  "'d backend \<Rightarrow> store \<Rightarrow> xval arg \<Rightarrow> ref arg \<Rightarrow> pyval \<Rightarrow> exn + 'd GaussianConstraint \<times> store" where
  "GaussianConstraint_init bk h x_in mu_in sigma =
     (let xs = convert_to_container x_in;
          mu = convert_to_container mu_in;
          params_dict = dict_of (map (\<lambda>(i, p). (''param_'' @ str_nat i, p)) (enumerate 0 mu));
          covariance_fn = (\<lambda>h' sx. create_covariance h' sx mu sigma);
          d_params = Callable (\<lambda>h' sx.
             case covariance_fn h' sx of
               Inl e \<Rightarrow> Inl e
             | Inr c \<Rightarrow> Inr [(''loc'', ArgParams mu), (''covariance_matrix'', ArgTensor c)]);
          d_kwargs = Literal [(''validate_args'', ArgBool True)]
      in case DistributionConstraint_init h (Many xs) params_dict
                (MultivariateNormalFullCovariance bk) d_params (Some d_kwargs)
                ''GaussianConstraint'' of
           Inl e \<Rightarrow> Inl e
         | Inr (d, h') \<Rightarrow>
             Inr (\<lparr>self_name = self_name d, self_params = self_params d, self_x = self_x d,
                   self_distribution = self_distribution d,
                   dist_params = dist_params d, dist_kwargs = dist_kwargs d,
                   self_mu = mu, self_covariance = covariance_fn\<rparr>, h'))"

definition mu_property ::
  "('d, 'z) GaussianConstraint_scheme \<Rightarrow> ref list \<times> ('d, 'z) GaussianConstraint_scheme" where
  "mu_property self = (self_mu self, self)"

definition covariance ::
  "store \<Rightarrow> ('d, 'z) GaussianConstraint_scheme \<Rightarrow>
   (exn + tensor) \<times> ('d, 'z) GaussianConstraint_scheme" where
  "covariance h self = (self_covariance self h (self_x self), self)"

section \<open>SimpleConstraint\<close>

text \<open>
  The user's zero-argument function runs in the current store and may fail; its result
  type is left open.
\<close>

record 'r SimpleConstraint = BaseConstraint +
  simple_func :: "store \<Rightarrow> exn + 'r"
  simple_func_dependents :: "ref list"

text \<open>
  \<open>params\<close> is Optional: \<open>convert_to_container\<close> leaves None as it is, and
  \<open>enumerate(None)\<close> is a TypeError. An OrderedSet keeps the first occurrence of each
  element.
\<close>

definition SimpleConstraint_init ::
  "(store \<Rightarrow> exn + 'r) \<Rightarrow> ref arg option \<Rightarrow> exn + 'r SimpleConstraint" where
  "SimpleConstraint_init func params =
     (case params of
        None \<Rightarrow> Inl TypeError
      | Some a \<Rightarrow>
          (let deps = rev (remdups (rev (convert_to_container a)));
               ps = convert_to_container a;
               params_dict =
                 dict_of (map (\<lambda>(i, p). (''param_'' @ str_nat i, p)) (enumerate 0 ps));
               base = BaseConstraint_init params_dict ''SimpleConstraint''
           in Inr \<lparr>self_name = self_name base, self_params = self_params base,
                    simple_func = func, simple_func_dependents = deps\<rparr>))"

definition SimpleConstraint_value_impl ::
  "store \<Rightarrow> 'r SimpleConstraint \<Rightarrow> (exn + 'r) \<times> 'r SimpleConstraint" where
  "SimpleConstraint_value_impl h self = (simple_func self h, self)"

definition SimpleConstraint_value ::
  "store \<Rightarrow> 'r SimpleConstraint \<Rightarrow> (exn + 'r) \<times> 'r SimpleConstraint" where
  "SimpleConstraint_value h self = SimpleConstraint_value_impl h self"

section \<open>Dependents\<close>

text \<open>
  Modelled from the spec: \<open>get_params\<close> and \<open>_extract_dependents\<close> of BaseNumeric are not
  among the sources; the default dependents of a constraint are exactly the parameters of
  its \<open>params\<close> mapping, as a set.
\<close>

definition get_params :: "'z BaseConstraint_scheme \<Rightarrow> ref list" where
  "get_params self = dict_values (self_params self)"

definition extract_dependents :: "ref list \<Rightarrow> ref set" where
  "extract_dependents ps = set ps"

definition get_dependents :: "'z BaseConstraint_scheme \<Rightarrow> ref set" where
  "get_dependents self = extract_dependents (get_params self)"

section \<open>The multivariate normal, as mathematics\<close>

text \<open>
  Modelled from the spec: the numeric backend is external; the spec asks of it a
  multivariate normal with \<open>log_prob(vector) -> scalar\<close>, \<open>sample(n) -> n x N array\<close> and a
  \<open>validate_args\<close> flag that refuses a covariance that is not symmetric positive definite.
  The density is the textbook one: the determinant by expansion along the first row, the
  inverse through cofactors. The outcome of the random draw is a parameter.
\<close>

datatype mvn = MVN (mvn_loc: "real list") (mvn_cov: "real list list")

definition rows_of :: "tensor \<Rightarrow> real list list" where
  "rows_of t =
     map (\<lambda>i. take (shape t ! 1) (drop (i * (shape t ! 1)) (data t))) [0..<shape t ! 0]"

definition drop_col :: "nat \<Rightarrow> real list list \<Rightarrow> real list list" where
  "drop_col j rs = map (\<lambda>q. take j q @ drop (Suc j) q) rs"

function det :: "real list list \<Rightarrow> real" where
  "det [] = 1"
| "det (r # rs) = (\<Sum>j\<leftarrow>[0..<length r]. (- 1) ^ j * r ! j * det (drop_col j rs))"
  by pat_completeness auto
termination
  by (relation "measure length") (auto simp: drop_col_def)

definition cofactor :: "real list list \<Rightarrow> nat \<Rightarrow> nat \<Rightarrow> real" where
  "cofactor S i j = (- 1) ^ (i + j) * det (drop_col j (take i S @ drop (Suc i) S))"

definition quad_form :: "real list list \<Rightarrow> real list \<Rightarrow> real" where
  "quad_form S d =
     (\<Sum>i\<leftarrow>[0..<length d]. \<Sum>j\<leftarrow>[0..<length d]. d ! i * cofactor S j i * d ! j) / det S"

definition positive_definite :: "real list list \<Rightarrow> bool" where
  "positive_definite S =
     (S = transpose S \<and>
      list_all (\<lambda>k. 0 < det (map (take k) (take k S))) [1..<Suc (length S)])"

definition ref_mvn :: "store \<Rightarrow> kwargs \<Rightarrow> exn + mvn" where
  "ref_mvn h kw =
     (case (map_of kw ''loc'', map_of kw ''covariance_matrix'') of
        (Some (ArgParams ps), Some (ArgTensor t)) \<Rightarrow>
          if shape t = [length ps, length ps] \<and>
             (if map_of kw ''validate_args'' = Some (ArgBool True)
              then positive_definite (rows_of t) else True)
          then Inr (MVN (map (value_of h) ps) (rows_of t))
          else Inl InvalidArgumentError
      | _ \<Rightarrow> Inl TypeError)"

text \<open>
  \<open>- log N(xs; ms, S)\<close>: half of \<open>k log(2 pi) + log det S + (xs - ms)\<^sup>T S\<^sup>-\<^sup>1 (xs - ms)\<close>.
\<close>

definition neg_log_normal :: "real list \<Rightarrow> real list \<Rightarrow> real list list \<Rightarrow> real" where
  "neg_log_normal xs ms S =
     (real (length ms) * ln (2 * pi) + ln (det S) + quad_form S (map2 (-) xs ms)) / 2"

definition ref_log_prob :: "mvn \<Rightarrow> tensor \<Rightarrow> exn + real" where
  "ref_log_prob d t =
     (if shape t = [length (mvn_loc d)]
      then Inr (- neg_log_normal (data t) (mvn_loc d) (mvn_cov d))
      else Inl InvalidArgumentError)"

definition ref_backend :: "real list list \<Rightarrow> mvn backend" where
  "ref_backend outcome =
     \<lparr>MultivariateNormalFullCovariance = ref_mvn,
      log_prob = ref_log_prob,
      sample_rows = (\<lambda>d n.
        if length outcome = n \<and> list_all (\<lambda>r. length r = length (mvn_loc d)) outcome
        then Inr outcome else Inl InvalidArgumentError)\<rparr>"

text \<open>
  The covariance matrix of the specification: \<open>sigma\<^sup>2\<close> as a 1 x 1 matrix for a scalar,
  \<open>diag(sigma\<^sub>i\<^sup>2)\<close> for a vector, \<open>sigma\<close> itself for a matrix. This definition follows
  the words of the specification; the code's is \<open>create_covariance\<close>.
\<close>

definition diag_matrix :: "real list \<Rightarrow> tensor" where
  "diag_matrix vs =
     Tensor [length vs, length vs]
       (concat (map (\<lambda>i. map (\<lambda>j. if i = j then vs ! i else 0) [0..<length vs])
                  [0..<length vs]))"

definition spec_Sigma :: "tensor \<Rightarrow> tensor" where
  "spec_Sigma sigma_t =
     (if ndims sigma_t = 0 then Tensor [1, 1] [(data sigma_t ! 0) ^ 2]
      else if ndims sigma_t = 1 then diag_matrix (map (\<lambda>v. v ^ 2) (data sigma_t))
      else sigma_t)"

section \<open>Example stores\<close>

text \<open>Three parameters \<open>a = 1\<close>, \<open>b = 2\<close>, \<open>c = 3\<close> at the addresses 0, 1 and 2.\<close>

definition store_abc :: store where
  "store_abc = [\<lparr>pname = ''a'', pvalue = 1, psource = None\<rparr>, \<lparr>pname = ''b'', pvalue = 2, psource = None\<rparr>,
                \<lparr>pname = ''c'', pvalue = 3, psource = None\<rparr>]"

text \<open>One parameter \<open>m = 5\<close> at the address 0.\<close>

definition store_m :: store where
  "store_m = [\<lparr>pname = ''m'', pvalue = 5, psource = None\<rparr>]"

section \<open>The observed-value parameter of an entry\<close>

text \<open>
  What the specification asks of the \<open>i\<close>-th entry of \<open>x\<close>: for the pair \<open>z\<close> of the
  \<open>i\<close>-th observed value and the \<open>i\<close>-th parameter, and a construction that led from the
  store \<open>h\<close> to the store \<open>h'\<close>, the address \<open>r\<close> is that of a holder created by the
  construction, named after the parameter, and wrapping the literal or referring to the
  observed parameter.
\<close>

definition observed_of :: "store \<Rightarrow> store \<Rightarrow> xval \<times> ref \<Rightarrow> ref \<Rightarrow> bool" where
  "observed_of h h' z r =
     (length h \<le> r \<and> r < length h' \<and>
      pname (h' ! r) = name_of h (snd z) @ ''_obs'' \<and>
      (case fst z of
         Lit v \<Rightarrow> psource (h' ! r) = None \<and> pvalue (h' ! r) = v
       | Ref q \<Rightarrow> psource (h' ! r) = Some q))"

section \<open>Auxiliary facts\<close>

lemma str_nat_digit: "n < 10 \<Longrightarrow> str_nat n = [''0123456789'' ! n]"
  by (simp add: str_nat.simps)

lemma collect_map_Inr: "collect (map (\<lambda>x. Inr (f x)) xs) = Inr (map f xs)"
  by (induction xs) auto

lemma convert_to_tensor_params:
  "convert_to_tensor h (Seq (map Par ps)) = Inr (Tensor [length ps] (map (value_of h) ps))"
proof -
  have c: "collect (map (convert_to_tensor h) (map Par ps)) =
           Inr (map (\<lambda>p. Tensor [] [value_of h p]) ps)"
    using collect_map_Inr [of "\<lambda>p. Tensor [] [value_of h p]" ps] by (simp add: comp_def)
  have s: "stack (map (\<lambda>p. Tensor [] [value_of h p]) ps) =
           Inr (Tensor [length ps] (map (value_of h) ps))"
    by (cases ps) (simp_all add: stack_def list_all_iff comp_def)
  show ?thesis using c s by simp
qed

lemma str_nat_nonempty: "str_nat n \<noteq> []"
  by (subst str_nat.simps) simp

lemma str_nat_length2: "\<not> m < 10 \<Longrightarrow> 2 \<le> length (str_nat m)"
  using str_nat_nonempty [of "m div 10"]
  by (subst str_nat.simps) (simp add: Suc_le_eq)

lemma digit_inj: "a < 10 \<Longrightarrow> b < 10 \<Longrightarrow> ''0123456789'' ! a = ''0123456789'' ! b \<Longrightarrow> a = b"
proof -
  assume a: "a < 10" and b: "b < 10" and e: "''0123456789'' ! a = ''0123456789'' ! b"
  have d: "distinct ''0123456789''" by simp
  show "a = b" using nth_eq_iff_index_eq [OF d, of a b] a b e by simp
qed

lemma str_nat_inj: "str_nat n = str_nat m \<Longrightarrow> n = m"
proof (induction n arbitrary: m rule: str_nat.induct)
  case (1 n)
  show ?case
  proof (cases "n < 10")
    case True
    note n = this
    show ?thesis
    proof (cases "m < 10")
      case True
      with n "1.prems" show ?thesis
        by (auto simp: str_nat_digit dest: digit_inj)
    next
      case False
      from n have "length (str_nat n) = 1" by (simp add: str_nat_digit)
      with "1.prems" str_nat_length2 [OF False] show ?thesis by simp
    qed
  next
    case False
    note n = this
    then have en: "str_nat n = str_nat (n div 10) @ [''0123456789'' ! (n mod 10)]"
      by (subst str_nat.simps) simp
    show ?thesis
    proof (cases "m < 10")
      case True
      from True have "length (str_nat m) = 1" by (simp add: str_nat_digit)
      with "1.prems" str_nat_length2 [OF n] show ?thesis by simp
    next
      case False
      then have em: "str_nat m = str_nat (m div 10) @ [''0123456789'' ! (m mod 10)]"
        by (subst str_nat.simps) simp
      from en em "1.prems" have a: "str_nat (n div 10) = str_nat (m div 10)"
        and b: "''0123456789'' ! (n mod 10) = ''0123456789'' ! (m mod 10)"
        by simp_all
      from "1.IH" [OF n a] have "n div 10 = m div 10" .
      moreover from b have "n mod 10 = m mod 10"
        by (intro digit_inj) simp_all
      ultimately show ?thesis
        by (metis div_mult_mod_eq)
    qed
  qed
qed

lemma dict_of_distinct: "distinct (map fst kvs) \<Longrightarrow> dict_of kvs = kvs"
proof -
  have "distinct (map fst (d @ kvs)) \<Longrightarrow> fold (\<lambda>(k, v) d. AList.update k v d) kvs d = d @ kvs" for d
  proof (induction kvs arbitrary: d)
    case Nil
    then show ?case by simp
  next
    case (Cons kv kvs)
    obtain k v where kv: "kv = (k, v)" by (cases kv)
    from Cons.prems kv have "k \<notin> fst ` set d" by auto
    then have u: "AList.update k v d = d @ [(k, v)]"
      by (induction d) auto
    from Cons.prems kv have "distinct (map fst ((d @ [(k, v)]) @ kvs))" by simp
    from Cons.IH [OF this] u kv show ?case by simp
  qed
  from this [of "[]"] show "distinct (map fst kvs) \<Longrightarrow> dict_of kvs = kvs"
    by (simp add: dict_of_def)
qed

lemma slot_names:
  "dict_of (map (\<lambda>(i, p). (''param_'' @ str_nat i, p)) (enumerate 0 ps)) =
   map (\<lambda>(i, p). (''param_'' @ str_nat i, p)) (enumerate 0 ps)"
proof (rule dict_of_distinct)
  have "map fst (map (\<lambda>(i, p). (''param_'' @ str_nat i, p)) (enumerate 0 ps)) =
        map (\<lambda>i. ''param_'' @ str_nat i) [0..<length ps]"
  proof -
    have "map fst (map (\<lambda>(i, p). (''param_'' @ str_nat i, p)) (enumerate 0 ps)) =
          map (\<lambda>i. ''param_'' @ str_nat i) (map fst (enumerate 0 ps))"
      by (simp only: map_map comp_def case_prod_beta fst_conv)
    then show ?thesis by simp
  qed
  moreover have "distinct (map (\<lambda>i. ''param_'' @ str_nat i) [0..<length ps])"
    by (simp add: distinct_map inj_on_def str_nat_inj)
  ultimately show "distinct (map fst (map (\<lambda>(i, p). (''param_'' @ str_nat i, p)) (enumerate 0 ps)))"
    by simp
qed

lemma slot_values:
  "dict_values (map (\<lambda>(i, p). (''param_'' @ str_nat i, p)) (enumerate 0 ps)) = ps"
  by (simp add: dict_values_def comp_def case_prod_beta)


lemma collect_Inr:
  "collect rs = Inr ts \<Longrightarrow> rs = map Inr ts"
proof (induction rs arbitrary: ts)
  case Nil
  then show ?case by simp
next
  case (Cons r rs)
  then show ?case
    by (cases r) (auto split: sum.splits)
qed

lemma stack_wf:
  assumes "stack ts = Inr t" and "\<forall>u\<in>set ts. length (data u) = prod_list (shape u)"
  shows "length (data t) = prod_list (shape t)"
proof (cases ts)
  case Nil
  with assms show ?thesis by (auto simp: stack_def)
next
  case (Cons u us)
  with assms(1) have all: "\<forall>w\<in>set ts. shape w = shape u"
    and t: "t = Tensor (length ts # shape u) (concat (map data ts))"
    by (auto simp: stack_def list_all_iff split: if_splits)
  from all assms(2) have "\<forall>w\<in>set ts. length (data w) = prod_list (shape u)" by simp
  then have "map (\<lambda>w. length (data w)) ts = replicate (length ts) (prod_list (shape u))"
    by (induction ts) auto
  then have "length (concat (map data ts)) = length ts * prod_list (shape u)"
    by (simp add: length_concat comp_def sum_list_replicate)
  with t show ?thesis by simp
qed

lemma convert_to_tensor_wf:
  "convert_to_tensor h v = Inr t \<Longrightarrow> length (data t) = prod_list (shape t)"
proof (induction h v arbitrary: t rule: convert_to_tensor.induct)
  case (1 h v)
  then show ?case by auto
next
  case (2 h p)
  then show ?case by auto
next
  case (3 h vs)
  from "3.prems" obtain ts where c: "collect (map (convert_to_tensor h) vs) = Inr ts"
    and s: "stack ts = Inr t"
    by (auto split: sum.splits)
  from collect_Inr [OF c] have m: "map (convert_to_tensor h) vs = map Inr ts" .
  have "\<forall>u\<in>set ts. length (data u) = prod_list (shape u)"
  proof
    fix u assume "u \<in> set ts"
    then obtain i where i: "i < length ts" and u: "u = ts ! i"
      by (auto simp: in_set_conv_nth)
    from m have lv: "length vs = length ts" by (metis length_map)
    from m i lv have "convert_to_tensor h (vs ! i) = Inr (ts ! i)"
      by (metis nth_map)
    moreover from i lv have "vs ! i \<in> set vs" by simp
    ultimately show "length (data u) = prod_list (shape u)"
      using "3.IH" u by blast
  qed
  with s show ?case by (rule stack_wf)
qed

text \<open>The covariance as the code builds it, before the shape check.\<close>

lemma built_covariance:
  assumes wf: "length (data st) = prod_list (shape st)"
  shows "(if ndims st > 1 then Inr st
          else if ndims st = 1 then Inr (tensor_diag (z_pow st 2))
          else (case reshape st [1] of
                  Inl e \<Rightarrow> Inl e
                | Inr sigma1 \<Rightarrow> Inr (tensor_diag (z_pow sigma1 2)))) =
         (Inr (spec_Sigma st) :: exn + tensor)"
proof -
  consider (zero) "ndims st = 0" | (one) "ndims st = 1" | (more) "ndims st > 1"
    by linarith
  then show ?thesis
  proof cases
    case zero
    then have sh: "shape st = []" by (simp add: ndims_def)
    with wf obtain s where d: "data st = [s]"
      by (cases "data st") (auto simp: length_Suc_conv)
    from zero sh d show ?thesis
      by (simp add: reshape_def spec_Sigma_def tensor_diag_def z_pow_def)
  next
    case one
    then obtain n where sh: "shape st = [n]"
      by (cases "shape st") (auto simp: ndims_def)
    with wf have n: "n = length (data st)" by simp
    from one sh n show ?thesis
      by (simp add: spec_Sigma_def tensor_diag_def z_pow_def diag_matrix_def cong: if_cong)
  next
    case more
    then show ?thesis by (simp add: spec_Sigma_def)
  qed
qed

lemma create_covariance_eq:
  assumes st: "convert_to_tensor h sigma = Inr st"
  shows "create_covariance h sx mu sigma =
     (if length sx = length mu \<and> length mu = shape (spec_Sigma st) ! 0 \<and>
         shape (spec_Sigma st) ! 0 = shape (spec_Sigma st) ! 1
      then Inr (spec_Sigma st)
      else Inl (ShapeIncompatibleError
             (shapes_message (length sx) (length mu) (spec_Sigma st))))"
  unfolding create_covariance_def
  by (simp only: convert_to_tensor_params st sum.case built_covariance [OF convert_to_tensor_wf [OF st]])
     simp


lemma convert_observed_length: "length (fst (convert_observed h zs)) = length zs"
proof (induction zs arbitrary: h)
  case Nil
  then show ?case by simp
next
  case (Cons z zs)
  obtain xv p where z: "z = (xv, p)" by (cases z)
  show ?case
    using Cons.IH by (cases xv) (simp_all add: z split_def Let_def)
qed

lemma GaussianConstraint_init_mismatch:
  assumes "length (convert_to_container x_in) \<noteq> length (convert_to_container mu_in)"
  shows "GaussianConstraint_init bk h x_in mu_in sigma =
     Inl (ShapeIncompatibleError
       (lengths_message (length (convert_to_container x_in))
          (length (convert_to_container mu_in))))"
  using assms
  unfolding GaussianConstraint_init_def Let_def slot_names
  by (simp add: DistributionConstraint_init_def SamplableConstraint_init_def Let_def)

lemma GaussianConstraint_init_match:
  assumes "length (convert_to_container x_in) = length (convert_to_container mu_in)"
  shows "GaussianConstraint_init bk h x_in mu_in sigma =
     Inr (\<lparr>self_name = ''GaussianConstraint'',
           self_params = map (\<lambda>(i, p). (''param_'' @ str_nat i, p))
                           (enumerate 0 (convert_to_container mu_in)),
           self_x = fst (convert_observed h
                      (zip (convert_to_container x_in) (convert_to_container mu_in))),
           self_distribution = MultivariateNormalFullCovariance bk,
           dist_params = Callable (\<lambda>h' sx.
             case create_covariance h' sx (convert_to_container mu_in) sigma of
               Inl e \<Rightarrow> Inl e
             | Inr c \<Rightarrow> Inr [(''loc'', ArgParams (convert_to_container mu_in)),
                             (''covariance_matrix'', ArgTensor c)]),
           dist_kwargs = Literal [(''validate_args'', ArgBool True)],
           self_mu = convert_to_container mu_in,
           self_covariance = (\<lambda>h' sx. create_covariance h' sx (convert_to_container mu_in) sigma)\<rparr>,
          snd (convert_observed h
                 (zip (convert_to_container x_in) (convert_to_container mu_in))))"
  using assms
  unfolding GaussianConstraint_init_def Let_def slot_names
  by (simp add: DistributionConstraint_init_def SamplableConstraint_init_def
      BaseConstraint_init_def Let_def split_def dict_values_def comp_def)

lemma GaussianConstraint_init_lengths:
  assumes "GaussianConstraint_init bk h x_in mu_in sigma = Inr (c, h')"
  shows "length (convert_to_container x_in) = length (convert_to_container mu_in)"
  using assms GaussianConstraint_init_mismatch [of x_in mu_in bk h sigma]
  by (cases "length (convert_to_container x_in) = length (convert_to_container mu_in)") simp_all

lemma covariance_gaussian:
  assumes "GaussianConstraint_init bk h x_in mu_in sigma = Inr (c, h')"
  shows "covariance h2 c =
     (create_covariance h2 (self_x c) (convert_to_container mu_in) sigma, c)"
  using assms GaussianConstraint_init_match [OF GaussianConstraint_init_lengths [OF assms], of bk h sigma]
  by (auto simp: covariance_def)

lemma distribution_gaussian:
  assumes "GaussianConstraint_init bk h x_in mu_in sigma = Inr (c, h')"
  shows "distribution h2 c =
     (case create_covariance h2 (self_x c) (convert_to_container mu_in) sigma of
        Inl e \<Rightarrow> Inl e
      | Inr cv \<Rightarrow>
          MultivariateNormalFullCovariance bk h2
            [(''loc'', ArgParams (convert_to_container mu_in)),
             (''covariance_matrix'', ArgTensor cv),
             (''validate_args'', ArgBool True),
             (''name'', ArgStr ''GaussianConstraint_tfp'')], c)"
  using assms GaussianConstraint_init_match [OF GaussianConstraint_init_lengths [OF assms], of bk h sigma]
  by (auto simp: distribution_def call_provider_def call_with_kwargs_def split: sum.splits)

lemma value_gaussian:
  assumes "GaussianConstraint_init bk h x_in mu_in sigma = Inr (c, h')"
  shows "value bk h2 c =
     (case create_covariance h2 (self_x c) (convert_to_container mu_in) sigma of
        Inl e \<Rightarrow> Inl e
      | Inr cv \<Rightarrow>
          (case MultivariateNormalFullCovariance bk h2
                  [(''loc'', ArgParams (convert_to_container mu_in)),
                   (''covariance_matrix'', ArgTensor cv),
                   (''validate_args'', ArgBool True),
                   (''name'', ArgStr ''GaussianConstraint_tfp'')] of
             Inl e \<Rightarrow> Inl e
           | Inr d \<Rightarrow>
               (case log_prob bk d
                       (Tensor [length (self_x c)] (map (value_of h2) (self_x c))) of
                  Inl e \<Rightarrow> Inl e
                | Inr lp \<Rightarrow> Inr (- lp))), c)"
  unfolding value_def value_impl_def distribution_gaussian [OF assms] x_array_def x_property_def
    Let_def split_def fst_conv snd_conv convert_to_tensor_params
  by (simp split: sum.splits)

lemma GaussianConstraint_init_ex:
  assumes "length (convert_to_container x_in) = length (convert_to_container mu_in)"
  shows "\<exists>c h'. GaussianConstraint_init bk h x_in mu_in sigma = Inr (c, h')"
  using GaussianConstraint_init_match [OF assms, of bk h sigma] by blast

lemma GaussianConstraint_init_fields:
  assumes "GaussianConstraint_init bk h x_in mu_in sigma = Inr (c, h')"
  shows "self_name c = ''GaussianConstraint''"
    and "self_params c = map (\<lambda>(i, p). (''param_'' @ str_nat i, p))
                           (enumerate 0 (convert_to_container mu_in))"
    and "self_x c = fst (convert_observed h
                      (zip (convert_to_container x_in) (convert_to_container mu_in)))"
    and "h' = snd (convert_observed h
                      (zip (convert_to_container x_in) (convert_to_container mu_in)))"
    and "self_mu c = convert_to_container mu_in"
    and "length (self_x c) = length (convert_to_container mu_in)"
    and "dist_kwargs c = Literal [(''validate_args'', ArgBool True)]"
    and "self_distribution c = MultivariateNormalFullCovariance bk"
  using assms GaussianConstraint_init_match [OF GaussianConstraint_init_lengths [OF assms], of bk h sigma]
    GaussianConstraint_init_lengths [OF assms]
  by (auto simp: convert_observed_length)

lemma sigma_111: "convert_to_tensor h (Seq [Num 1, Num 1, Num 1]) = Inr (Tensor [3] [1, 1, 1])"
  by (simp add: stack_def)

lemma nth_concat_rows:
  "\<forall>r\<in>set rs. length r = m \<Longrightarrow> i < length rs \<Longrightarrow> j < m \<Longrightarrow>
   concat rs ! (i * m + j) = rs ! i ! j"
proof (induction rs arbitrary: i)
  case Nil
  then show ?case by simp
next
  case (Cons r rs)
  show ?case
  proof (cases i)
    case 0
    with Cons.prems show ?thesis by (simp add: nth_append)
  next
    case (Suc k)
    with Cons.prems have "concat rs ! (k * m + j) = rs ! k ! j"
      by (intro Cons.IH) simp_all
    with Suc Cons.prems show ?thesis by (simp add: nth_append)
  qed
qed

lemma diag_matrix_entry:
  assumes "i < length vs" and "j < length vs"
  shows "data (diag_matrix vs) ! (i * length vs + j) = (if i = j then vs ! i else 0)"
proof -
  let ?rs = "map (\<lambda>i. map (\<lambda>j. if i = j then vs ! i else 0) [0..<length vs]) [0..<length vs]"
  have "concat ?rs ! (i * length vs + j) = ?rs ! i ! j"
    using assms by (intro nth_concat_rows) auto
  with assms show ?thesis by (simp add: diag_matrix_def)
qed

lemma covariance_gaussian_ok:
  assumes init: "GaussianConstraint_init bk h x_in mu_in sigma = Inr (c, h')"
    and st: "convert_to_tensor h2 sigma = Inr st"
    and sh: "shape (spec_Sigma st) ! 0 = length (self_mu c)"
            "shape (spec_Sigma st) ! 1 = length (self_mu c)"
  shows "create_covariance h2 (self_x c) (convert_to_container mu_in) sigma = Inr (spec_Sigma st)"
  using sh GaussianConstraint_init_fields(5,6) [OF init]
  by (simp add: create_covariance_eq [OF st])

lemma scalar_tensor:
  assumes "convert_to_tensor h v = Inr t" and "ndims t = 0"
  shows "t = Tensor [] [data t ! 0]"
proof -
  from assms(2) have sh: "shape t = []" by (simp add: ndims_def)
  with convert_to_tensor_wf [OF assms(1)] obtain s where "data t = [s]"
    by (cases "data t") (auto simp: length_Suc_conv)
  with sh show ?thesis by (cases t) simp
qed

lemma value_gaussian_ok:
  assumes init: "GaussianConstraint_init bk h x_in mu_in sigma = Inr (c, h')"
    and st: "convert_to_tensor h2 sigma = Inr st"
    and sh: "shape (spec_Sigma st) = [length (self_mu c), length (self_mu c)]"
  shows "fst (value bk h2 c) =
     (case MultivariateNormalFullCovariance bk h2
             [(''loc'', ArgParams (self_mu c)),
              (''covariance_matrix'', ArgTensor (spec_Sigma st)),
              (''validate_args'', ArgBool True),
              (''name'', ArgStr ''GaussianConstraint_tfp'')] of
        Inl e \<Rightarrow> Inl e
      | Inr d \<Rightarrow>
          (case log_prob bk d (Tensor [length (self_x c)] (map (value_of h2) (self_x c))) of
             Inl e \<Rightarrow> Inl e
           | Inr lp \<Rightarrow> Inr (- lp)))"
proof -
  from sh have "shape (spec_Sigma st) ! 0 = length (self_mu c)"
    "shape (spec_Sigma st) ! 1 = length (self_mu c)" by simp_all
  from covariance_gaussian_ok [OF init st this] show ?thesis
    by (simp add: value_gaussian [OF init] GaussianConstraint_init_fields(5) [OF init])
qed

lemma value_reference:
  assumes init: "GaussianConstraint_init (ref_backend outcome) h x_in mu_in sigma = Inr (c, h')"
    and st: "convert_to_tensor h2 sigma = Inr st"
    and sh: "shape (spec_Sigma st) = [length (self_mu c), length (self_mu c)]"
    and pd: "positive_definite (rows_of (spec_Sigma st))"
  shows "fst (value (ref_backend outcome) h2 c) =
     Inr (neg_log_normal (map (value_of h2) (self_x c)) (map (value_of h2) (self_mu c))
            (rows_of (spec_Sigma st)))"
proof -
  have "MultivariateNormalFullCovariance (ref_backend outcome) h2
             [(''loc'', ArgParams (self_mu c)),
              (''covariance_matrix'', ArgTensor (spec_Sigma st)),
              (''validate_args'', ArgBool True),
              (''name'', ArgStr ''GaussianConstraint_tfp'')] =
        Inr (MVN (map (value_of h2) (self_mu c)) (rows_of (spec_Sigma st)))"
    using sh pd by (simp add: ref_backend_def ref_mvn_def)
  moreover have "log_prob (ref_backend outcome)
        (MVN (map (value_of h2) (self_mu c)) (rows_of (spec_Sigma st)))
        (Tensor [length (self_x c)] (map (value_of h2) (self_x c))) =
      Inr (- neg_log_normal (map (value_of h2) (self_x c)) (map (value_of h2) (self_mu c))
            (rows_of (spec_Sigma st)))"
    using GaussianConstraint_init_fields(5,6) [OF init]
    by (simp add: ref_backend_def ref_log_prob_def)
  ultimately show ?thesis
    by (simp add: value_gaussian_ok [OF init st sh])
qed

lemma identity_2x2:
  "rows_of (Tensor [2, 2] [1, 0, 0, 1]) = [[1, 0], [0, 1]]"
  "positive_definite [[1, 0], [0, 1]]"
  "neg_log_normal [1, 2] [1, 2] [[1, 0], [0, 1]] = ln (2 * pi)"
  by (simp_all add: rows_of_def positive_definite_def neg_log_normal_def quad_form_def
      cofactor_def drop_col_def upt_rec)

lemma variance_4:
  "rows_of (Tensor [1, 1] [4]) = [[4]]"
  "positive_definite [[4]]"
  "neg_log_normal [5] [5] [[4]] = (ln (2 * pi) + ln 4) / 2"
  by (simp_all add: rows_of_def positive_definite_def neg_log_normal_def quad_form_def
      cofactor_def drop_col_def upt_rec)

lemma SimpleConstraint_init_Some:
  "\<exists>c. SimpleConstraint_init func (Some a) = Inr c \<and> simple_func c = func"
  by (simp add: SimpleConstraint_init_def Let_def)

lemma GaussianConstraint_init_values:
  assumes "GaussianConstraint_init bk h x_in mu_in sigma = Inr (c, h')"
  shows "dict_values (self_params c) = convert_to_container mu_in"
  by (simp only: GaussianConstraint_init_fields(2) [OF assms] slot_values)

lemma SamplableConstraint_init_match:
  assumes "length (convert_to_container x_in) = length params"
  shows "SamplableConstraint_init h x_in params name =
     Inr (\<lparr>self_name = name, self_params = params,
           self_x = fst (convert_observed h (zip (convert_to_container x_in) (dict_values params)))\<rparr>,
          snd (convert_observed h (zip (convert_to_container x_in) (dict_values params))))"
  using assms
  by (simp add: SamplableConstraint_init_def BaseConstraint_init_def Let_def split_def)

lemma distribution_snd: "snd (distribution h c) = c"
  by (simp add: distribution_def split: sum.splits)

lemma column_ok:
  "list_all (\<lambda>r. length r = m) rows \<Longrightarrow> i < m \<Longrightarrow>
   column rows i = Inr (map (\<lambda>r. r ! i) rows)"
  by (auto simp: column_def list_all_iff)

lemma collect_columns:
  assumes "list_all (\<lambda>r. length r = length xs) rows"
  shows "collect (map (\<lambda>(i, p). case column rows i of Inl e \<Rightarrow> Inl e | Inr c \<Rightarrow> Inr (p, c))
                  (enumerate 0 xs)) =
         Inr (zip xs (map (\<lambda>i. map (\<lambda>r. r ! i) rows) [0..<length xs]))"
proof -
  have e1: "map (\<lambda>(i, p). case column rows i of Inl e \<Rightarrow> Inl e | Inr c \<Rightarrow> Inr (p, c))
          (enumerate 0 xs) =
        map (\<lambda>ip. Inr (snd ip, map (\<lambda>r. r ! fst ip) rows)) (enumerate 0 xs)"
    by (rule map_cong) (auto simp: in_set_enumerate_eq column_ok [OF assms])
  have e2: "map (\<lambda>ip. (snd ip, map (\<lambda>r. r ! fst ip) rows)) (enumerate 0 xs) =
        zip xs (map (\<lambda>i. map (\<lambda>r. r ! i) rows) [0..<length xs])"
    by (rule nth_equalityI) (simp_all add: nth_enumerate_eq)
  have "collect (map (\<lambda>(i, p). case column rows i of Inl e \<Rightarrow> Inl e | Inr c \<Rightarrow> Inr (p, c))
                  (enumerate 0 xs)) =
        collect (map (\<lambda>ip. Inr (snd ip, map (\<lambda>r. r ! fst ip) rows)) (enumerate 0 xs))"
    by (simp only: e1)
  also have "\<dots> = Inr (map (\<lambda>ip. (snd ip, map (\<lambda>r. r ! fst ip) rows)) (enumerate 0 xs))"
    by (rule collect_map_Inr)
  finally show ?thesis by (simp only: e2)
qed

lemma sample_eq:
  assumes d: "fst (distribution h c) = Inr d"
    and rows: "sample_rows bk d n = Inr rows"
    and cols: "list_all (\<lambda>r. length r = length (self_x c)) rows"
  shows "fst (sample bk h n c) =
     Inr (dict_of (zip (self_x c) (map (\<lambda>i. map (\<lambda>r. r ! i) rows) [0..<length (self_x c)])))"
proof -
  from d distribution_snd [of h c] have "distribution h c = (Inr d, c)"
    by (cases "distribution h c") simp
  then show ?thesis
    by (simp add: sample_def sample_impl_def x_property_def rows collect_columns [OF cols])
qed

lemma distribution_reference:
  assumes init: "GaussianConstraint_init (ref_backend outcome) h x_in mu_in sigma = Inr (c, h')"
    and st: "convert_to_tensor h2 sigma = Inr st"
    and sh: "shape (spec_Sigma st) = [length (self_mu c), length (self_mu c)]"
    and pd: "positive_definite (rows_of (spec_Sigma st))"
  shows "fst (distribution h2 c) =
     Inr (MVN (map (value_of h2) (self_mu c)) (rows_of (spec_Sigma st)))"
proof -
  from sh have "shape (spec_Sigma st) ! 0 = length (self_mu c)"
    "shape (spec_Sigma st) ! 1 = length (self_mu c)" by simp_all
  from covariance_gaussian_ok [OF init st this] sh pd
    GaussianConstraint_init_fields(5) [OF init]
  show ?thesis
    by (simp add: distribution_gaussian [OF init] ref_backend_def ref_mvn_def)
qed

lemma sigma_11: "convert_to_tensor h (Seq [Num 1, Num 1]) = Inr (Tensor [2] [1, 1])"
  by (simp add: stack_def)

lemma spec_Sigma_11: "spec_Sigma (Tensor [2] [1, 1]) = Tensor [2, 2] [1, 0, 0, 1]"
  by (simp add: spec_Sigma_def ndims_def diag_matrix_def upt_rec)

lemma variance_examples:
  "rows_of (Tensor [1, 1] [9]) = [[9]]"
  "positive_definite [[9]]"
  "neg_log_normal [1] [1] [[4]] = (ln (2 * pi) + ln 4) / 2"
  "neg_log_normal [1] [3] [[4]] = (ln (2 * pi) + ln 4 + 1) / 2"
  "neg_log_normal [1] [1] [[9]] = (ln (2 * pi) + ln 9) / 2"
  by (simp_all add: rows_of_def positive_definite_def neg_log_normal_def quad_form_def
      cofactor_def drop_col_def upt_rec)

lemma rows_of_1x1: "rows_of (Tensor [Suc 0, Suc 0] [a]) = [[a]]"
  by (simp add: rows_of_def)

lemma positive_definite_1x1: "positive_definite [[a]] = (0 < a)"
  by (simp add: positive_definite_def drop_col_def)

lemma spec_Sigma_scalar: "spec_Sigma (Tensor [] [s]) = Tensor [1, 1] [s ^ 2]"
  by (simp add: spec_Sigma_def ndims_def)

lemma convert_to_parameter_fst: "fst (convert_to_parameter h xv nm) = length h"
  by (cases xv) simp_all

lemma convert_to_parameter_snd:
  "\<exists>ob. snd (convert_to_parameter h xv nm) = h @ [ob] \<and> pname ob = nm \<and>
        (case xv of
           Lit v \<Rightarrow> psource ob = None \<and> pvalue ob = v
         | Ref q \<Rightarrow> psource ob = Some q)"
  by (cases xv) simp_all

lemma convert_observed_Cons:
  "convert_observed h ((xv, p) # zs) =
     (length h #
        fst (convert_observed (snd (convert_to_parameter h xv (name_of h p @ ''_obs''))) zs),
      snd (convert_observed (snd (convert_to_parameter h xv (name_of h p @ ''_obs''))) zs))"
  using convert_to_parameter_fst [of h xv "name_of h p @ ''_obs''"]
  by (simp add: split_def Let_def)

lemma convert_observed_extends:
  "\<exists>objs. snd (convert_observed h zs) = h @ objs"
proof (induction zs arbitrary: h)
  case Nil
  then show ?case by simp
next
  case (Cons z zs)
  obtain xv p where z: "z = (xv, p)" by (cases z)
  from convert_to_parameter_snd [of h xv "name_of h p @ ''_obs''"]
  obtain ob where ob: "snd (convert_to_parameter h xv (name_of h p @ ''_obs'')) = h @ [ob]"
    by blast
  from Cons.IH [of "h @ [ob]"] show ?case
    by (auto simp: z convert_observed_Cons ob simp del: convert_observed.simps)
qed

lemma convert_observed_refs:
  "fst (convert_observed h zs) = [length h..<length h + length zs]"
proof (induction zs arbitrary: h)
  case Nil
  then show ?case by simp
next
  case (Cons z zs)
  obtain xv p where z: "z = (xv, p)" by (cases z)
  from convert_to_parameter_snd [of h xv "name_of h p @ ''_obs''"]
  obtain ob where ob: "snd (convert_to_parameter h xv (name_of h p @ ''_obs'')) = h @ [ob]"
    by blast
  from Cons.IH [of "h @ [ob]"] show ?case
    by (simp add: z convert_observed_Cons ob upt_conv_Cons del: convert_observed.simps upt_Suc)
qed

lemma convert_observed_distinct: "distinct (fst (convert_observed h zs))"
  by (simp add: convert_observed_refs)

lemma observed_of_weaken:
  assumes "observed_of (h @ [ob]) h2 z r" and "snd z < length h"
  shows "observed_of h h2 z r"
  using assms by (auto simp: observed_of_def name_of_def nth_append)

lemma convert_observed_spec:
  "list_all (\<lambda>z. snd z < length h) zs \<Longrightarrow>
   list_all2 (observed_of h (snd (convert_observed h zs))) zs (fst (convert_observed h zs))"
proof (induction zs arbitrary: h)
  case Nil
  then show ?case by simp
next
  case (Cons z zs)
  obtain xv p where z: "z = (xv, p)" by (cases z)
  from Cons.prems z have p: "p < length h" and rest: "list_all (\<lambda>z. snd z < length h) zs"
    by simp_all
  from convert_to_parameter_snd [of h xv "name_of h p @ ''_obs''"]
  obtain ob where ob: "snd (convert_to_parameter h xv (name_of h p @ ''_obs'')) = h @ [ob]"
    and nm: "pname ob = name_of h p @ ''_obs''"
    and src: "case xv of Lit v \<Rightarrow> psource ob = None \<and> pvalue ob = v
                       | Ref q \<Rightarrow> psource ob = Some q"
    by blast
  let ?h1 = "h @ [ob]"
  let ?h2 = "snd (convert_observed ?h1 zs)"
  from rest have "list_all (\<lambda>z. snd z < length ?h1) zs"
    by (auto simp: list_all_iff)
  from Cons.IH [OF this]
  have ih: "list_all2 (observed_of ?h1 ?h2) zs (fst (convert_observed ?h1 zs))" .
  have tl: "list_all2 (observed_of h ?h2) zs (fst (convert_observed ?h1 zs))"
    unfolding list_all2_conv_all_nth
  proof (intro conjI allI impI)
    from ih show "length zs = length (fst (convert_observed ?h1 zs))"
      by (simp add: list_all2_lengthD)
  next
    fix i assume i: "i < length zs"
    with ih have "observed_of ?h1 ?h2 (zs ! i) (fst (convert_observed ?h1 zs) ! i)"
      by (simp add: list_all2_conv_all_nth)
    moreover from rest i have "snd (zs ! i) < length h"
      by (simp add: list_all_length)
    ultimately show "observed_of h ?h2 (zs ! i) (fst (convert_observed ?h1 zs) ! i)"
      by (rule observed_of_weaken)
  qed
  from convert_observed_extends [of ?h1 zs] obtain objs where e: "?h2 = ?h1 @ objs"
    by blast
  have hd: "observed_of h ?h2 (xv, p) (length h)"
    using nm src by (cases xv) (simp_all add: observed_of_def e nth_append)
  from hd tl show ?case
    by (simp add: z convert_observed_Cons ob del: convert_observed.simps)
qed

lemma value_snd: "snd (value bk h c) = c"
  by (simp add: value_def value_impl_def x_array_def x_property_def distribution_def
      split: sum.splits prod.splits)

lemma sample_snd: "snd (sample bk h n c) = c"
  by (simp add: sample_def sample_impl_def x_property_def distribution_def
      split: sum.splits prod.splits)

lemma SamplableConstraint_init_fields:
  assumes "SamplableConstraint_init h x_in params name = Inr (s, h')"
  shows "self_params s = params"
    and "self_x s = fst (convert_observed h (zip (convert_to_container x_in) (dict_values params)))"
    and "h' = snd (convert_observed h (zip (convert_to_container x_in) (dict_values params)))"
    and "length (convert_to_container x_in) = length params"
  using assms
  by (auto simp: SamplableConstraint_init_def BaseConstraint_init_def Let_def split_def
      split: if_splits)

lemma DistributionConstraint_init_fields:
  assumes "DistributionConstraint_init h x_in params factory d_params d_kwargs name = Inr (c, h')"
  shows "self_x c = fst (convert_observed h (zip (convert_to_container x_in) (dict_values params)))"
    and "length (convert_to_container x_in) = length params"
    and "self_params c = params"
proof -
  from assms obtain s where s: "SamplableConstraint_init h x_in params name = Inr (s, h')"
    and c: "self_x c = self_x s" "self_params c = self_params s"
    by (auto simp: DistributionConstraint_init_def split: sum.splits)
  from SamplableConstraint_init_fields [OF s] c
  show "self_x c = fst (convert_observed h (zip (convert_to_container x_in) (dict_values params)))"
    and "length (convert_to_container x_in) = length params"
    and "self_params c = params"
    by simp_all
qed

lemma sample_constructed:
  assumes sx: "self_x c = fst (convert_observed h0 zs)"
    and d: "fst (distribution h c) = Inr d"
    and rows: "sample_rows bk d n = Inr rows"
    and n: "length rows = n"
    and cols: "list_all (\<lambda>r. length r = length zs) rows"
  shows "fst (sample bk h n c) =
           Inr (zip (self_x c) (map (\<lambda>i. map (\<lambda>r. r ! i) rows) [0..<length zs])) \<and>
         length (self_x c) = length zs \<and> distinct (self_x c) \<and>
         list_all (\<lambda>v. length v = n) (map (\<lambda>i. map (\<lambda>r. r ! i) rows) [0..<length zs])"
proof -
  have l: "length (self_x c) = length zs"
    by (simp add: sx convert_observed_length)
  have dx: "distinct (self_x c)"
    by (simp add: sx convert_observed_distinct)
  from cols l have cols': "list_all (\<lambda>r. length r = length (self_x c)) rows"
    by simp
  have "fst (sample bk h n c) =
        Inr (dict_of (zip (self_x c) (map (\<lambda>i. map (\<lambda>r. r ! i) rows) [0..<length (self_x c)])))"
    by (rule sample_eq [OF d rows cols'])
  moreover have "dict_of (zip (self_x c) (map (\<lambda>i. map (\<lambda>r. r ! i) rows) [0..<length (self_x c)])) =
        zip (self_x c) (map (\<lambda>i. map (\<lambda>r. r ! i) rows) [0..<length (self_x c)])"
    using dx by (intro dict_of_distinct) simp
  moreover have "list_all (\<lambda>v. length v = n) (map (\<lambda>i. map (\<lambda>r. r ! i) rows) [0..<length zs])"
    using n by (simp add: list_all_iff)
  ultimately show ?thesis
    using l dx by simp
qed

section \<open>The claims\<close>

text \<open>
  C3. Constructing a SamplableConstraint with \<open>len(x) \<noteq> len(params)\<close> raises the
  shape-incompatibility failure, whose message reports both lengths; with equal lengths
  the construction returns a constraint and no failure.
\<close>

theorem SamplableConstraint_init_lengths:
  "(length (convert_to_container x_in) \<noteq> length params \<longrightarrow>
      SamplableConstraint_init h x_in params name =
        Inl (ShapeIncompatibleError
          (''x and params have to be the same lenght. Currentlyx: '' @
           str_nat (length (convert_to_container x_in)) @ '', params: '' @
           str_nat (length params)))) \<and>
   (length (convert_to_container x_in) = length params \<longrightarrow>
      (\<exists>c h'. SamplableConstraint_init h x_in params name = Inr (c, h')))"
  by (simp add: SamplableConstraint_init_def lengths_message_def Let_def split: prod.splits)

theorem SamplableConstraint_init_lengths_witness:
  "SamplableConstraint_init store_abc (Many [Lit 1, Lit 2])
     [(''param_0'', 0), (''param_1'', 1), (''param_2'', 2)] ''S'' =
     Inl (ShapeIncompatibleError
       ''x and params have to be the same lenght. Currentlyx: 2, params: 3'') \<and>
   (\<exists>c h'. SamplableConstraint_init store_abc (One (Lit 1)) [(''param_0'', 0)] ''S'' =
      Inr (c, h'))"
  using SamplableConstraint_init_lengths
          [of "Many [Lit 1, Lit 2]" "[(''param_0'', 0), (''param_1'', 1), (''param_2'', 2)]"
              store_abc "''S''"]
        SamplableConstraint_init_lengths
          [of "One (Lit 1)" "[(''param_0'', 0)]" store_abc "''S''"]
  by (simp add: str_nat_digit)

text \<open>
  C2 (as amended). The shape check of a GaussianConstraint is split in two. When the
  lengths of \<open>x\<close> and \<open>mu\<close> differ, the construction itself fails, with the failure of
  SamplableConstraint that reports these two lengths. When they agree, the construction
  succeeds, and in every store in which \<open>sigma\<close> converts to a tensor whose covariance
  does not have both dimensions equal to that length, every access of \<open>covariance\<close> and
  every call of \<open>value()\<close> raises the failure that reports the three sizes.
\<close>

theorem GaussianConstraint_shape_failure:
  "(length (convert_to_container x_in) \<noteq> length (convert_to_container mu_in) \<longrightarrow>
      GaussianConstraint_init bk h x_in mu_in sigma =
        Inl (ShapeIncompatibleError
          (lengths_message (length (convert_to_container x_in))
             (length (convert_to_container mu_in))))) \<and>
   (length (convert_to_container x_in) = length (convert_to_container mu_in) \<longrightarrow>
      (\<exists>c h'. GaussianConstraint_init bk h x_in mu_in sigma = Inr (c, h') \<and>
         (\<forall>h2 st. convert_to_tensor h2 sigma = Inr st \<and>
                  \<not> (length (convert_to_container mu_in) = shape (spec_Sigma st) ! 0 \<and>
                     shape (spec_Sigma st) ! 0 = shape (spec_Sigma st) ! 1) \<longrightarrow>
            fst (covariance h2 c) =
              Inl (ShapeIncompatibleError
                (shapes_message (length (convert_to_container x_in))
                   (length (convert_to_container mu_in)) (spec_Sigma st))) \<and>
            fst (value bk h2 c) =
              Inl (ShapeIncompatibleError
                (shapes_message (length (convert_to_container x_in))
                   (length (convert_to_container mu_in)) (spec_Sigma st))))))"
proof (intro conjI impI)
  assume "length (convert_to_container x_in) \<noteq> length (convert_to_container mu_in)"
  then show "GaussianConstraint_init bk h x_in mu_in sigma =
        Inl (ShapeIncompatibleError
          (lengths_message (length (convert_to_container x_in))
             (length (convert_to_container mu_in))))"
    by (rule GaussianConstraint_init_mismatch)
next
  assume eq: "length (convert_to_container x_in) = length (convert_to_container mu_in)"
  from GaussianConstraint_init_ex [OF eq, of bk h sigma]
  obtain c h' where init: "GaussianConstraint_init bk h x_in mu_in sigma = Inr (c, h')"
    by blast
  have lx: "length (self_x c) = length (convert_to_container x_in)"
    using GaussianConstraint_init_fields(6) [OF init] eq by simp
  have late: "fst (covariance h2 c) =
              Inl (ShapeIncompatibleError
                (shapes_message (length (convert_to_container x_in))
                   (length (convert_to_container mu_in)) (spec_Sigma st))) \<and>
            fst (value bk h2 c) =
              Inl (ShapeIncompatibleError
                (shapes_message (length (convert_to_container x_in))
                   (length (convert_to_container mu_in)) (spec_Sigma st)))"
    if st: "convert_to_tensor h2 sigma = Inr st"
      and bad: "\<not> (length (convert_to_container mu_in) = shape (spec_Sigma st) ! 0 \<and>
                     shape (spec_Sigma st) ! 0 = shape (spec_Sigma st) ! 1)"
    for h2 st
  proof -
    have "create_covariance h2 (self_x c) (convert_to_container mu_in) sigma =
              Inl (ShapeIncompatibleError
                (shapes_message (length (convert_to_container x_in))
                   (length (convert_to_container mu_in)) (spec_Sigma st)))"
      using bad by (simp add: create_covariance_eq [OF st] lx)
    then show ?thesis
      by (simp add: covariance_gaussian [OF init] value_gaussian [OF init])
  qed
  show "\<exists>c h'. GaussianConstraint_init bk h x_in mu_in sigma = Inr (c, h') \<and>
         (\<forall>h2 st. convert_to_tensor h2 sigma = Inr st \<and>
                  \<not> (length (convert_to_container mu_in) = shape (spec_Sigma st) ! 0 \<and>
                     shape (spec_Sigma st) ! 0 = shape (spec_Sigma st) ! 1) \<longrightarrow>
            fst (covariance h2 c) =
              Inl (ShapeIncompatibleError
                (shapes_message (length (convert_to_container x_in))
                   (length (convert_to_container mu_in)) (spec_Sigma st))) \<and>
            fst (value bk h2 c) =
              Inl (ShapeIncompatibleError
                (shapes_message (length (convert_to_container x_in))
                   (length (convert_to_container mu_in)) (spec_Sigma st))))"
    using init late by blast
qed

theorem GaussianConstraint_shape_failure_witness:
  "GaussianConstraint_init (ref_backend []) store_abc (Many [Lit 1, Lit 2]) (Many [0, 1, 2])
     (Seq [Num 1, Num 1, Num 1]) =
     Inl (ShapeIncompatibleError
       ''x and params have to be the same lenght. Currentlyx: 2, params: 3'') \<and>
   (\<exists>c h'. GaussianConstraint_init (ref_backend []) store_abc (Many [Lit 1, Lit 2])
              (Many [0, 1]) (Seq [Num 1, Num 1, Num 1]) = Inr (c, h') \<and>
      fst (covariance h' c) =
        Inl (ShapeIncompatibleError
          ''x, mu and sigma have to have the same length. Currentlyx: 2, mu: 2, covariance (from sigma): (3, 3)'') \<and>
      fst (value (ref_backend []) h' c) =
        Inl (ShapeIncompatibleError
          ''x, mu and sigma have to have the same length. Currentlyx: 2, mu: 2, covariance (from sigma): (3, 3)''))"
proof -
  have sg: "spec_Sigma (Tensor [3] [1, 1, 1]) = Tensor [3, 3] [1, 0, 0, 0, 1, 0, 0, 0, 1]"
    by (simp add: spec_Sigma_def ndims_def diag_matrix_def upt_rec)
  from GaussianConstraint_shape_failure
         [of "Many [Lit 1, Lit 2]" "Many [0, 1, 2]" "ref_backend []" store_abc
             "Seq [Num 1, Num 1, Num 1]"]
  have a: "GaussianConstraint_init (ref_backend []) store_abc (Many [Lit 1, Lit 2])
             (Many [0, 1, 2]) (Seq [Num 1, Num 1, Num 1]) =
           Inl (ShapeIncompatibleError
             ''x and params have to be the same lenght. Currentlyx: 2, params: 3'')"
    by (simp add: lengths_message_def str_nat_digit)
  from GaussianConstraint_shape_failure
         [of "Many [Lit 1, Lit 2]" "Many [0, 1]" "ref_backend []" store_abc
             "Seq [Num 1, Num 1, Num 1]"]
  obtain c h' where init: "GaussianConstraint_init (ref_backend []) store_abc
        (Many [Lit 1, Lit 2]) (Many [0, 1]) (Seq [Num 1, Num 1, Num 1]) = Inr (c, h')"
    and late: "\<And>h2 st. convert_to_tensor h2 (Seq [Num 1, Num 1, Num 1]) = Inr st \<Longrightarrow>
        \<not> (length (convert_to_container (Many [0::nat, 1])) = shape (spec_Sigma st) ! 0 \<and>
           shape (spec_Sigma st) ! 0 = shape (spec_Sigma st) ! 1) \<Longrightarrow>
        fst (covariance h2 c) =
          Inl (ShapeIncompatibleError
            (shapes_message (length (convert_to_container (Many [Lit 1, Lit 2])))
               (length (convert_to_container (Many [0::nat, 1]))) (spec_Sigma st))) \<and>
        fst (value (ref_backend []) h2 c) =
          Inl (ShapeIncompatibleError
            (shapes_message (length (convert_to_container (Many [Lit 1, Lit 2])))
               (length (convert_to_container (Many [0::nat, 1]))) (spec_Sigma st)))"
    by auto
  from late [OF sigma_111 [of h']] have
    "fst (covariance h' c) =
        Inl (ShapeIncompatibleError
          ''x, mu and sigma have to have the same length. Currentlyx: 2, mu: 2, covariance (from sigma): (3, 3)'') \<and>
      fst (value (ref_backend []) h' c) =
        Inl (ShapeIncompatibleError
          ''x, mu and sigma have to have the same length. Currentlyx: 2, mu: 2, covariance (from sigma): (3, 3)'')"
    by (simp add: sg shapes_message_def str_shape2_def str_nat_digit)
  with a init show ?thesis by blast
qed

text \<open>
  With \<open>x\<close> of length 2 and \<open>mu\<close> of length 3 the failure is raised by the constructor,
  and its message has two sizes.
\<close>

theorem GaussianConstraint_eager_failure_counterexample:
  "GaussianConstraint_init (ref_backend []) store_abc (Many [Lit 1, Lit 2]) (Many [0, 1, 2])
     (Seq [Num 1, Num 1, Num 1]) =
   Inl (ShapeIncompatibleError
     ''x and params have to be the same lenght. Currentlyx: 2, params: 3'')"
  by (simp add: GaussianConstraint_init_mismatch lengths_message_def str_nat_digit)

text \<open>
  C4. The covariance of a GaussianConstraint is chosen by the rank of \<open>sigma\<close> as it
  converts to a tensor. Rank 0: the scalar is reshaped to a vector of length 1, squared
  and put on a diagonal, which is the 1 x 1 matrix of its square. Rank 1: the squares of
  the entries on the diagonal. Rank 2, of shape N x N: \<open>sigma\<close> itself. The \<open>covariance\<close>
  property returns that matrix.
\<close>

theorem covariance_by_rank:
  "GaussianConstraint_init bk h x_in mu_in sigma = Inr (c, h') \<and>
   convert_to_tensor h2 sigma = Inr st \<longrightarrow>
   (ndims st = 0 \<and> length (self_mu c) = 1 \<longrightarrow>
      reshape st [1] = Inr (Tensor [1] [data st ! 0]) \<and>
      fst (covariance h2 c) = Inr (tensor_diag (z_pow (Tensor [1] [data st ! 0]) 2)) \<and>
      fst (covariance h2 c) = Inr (Tensor [1, 1] [(data st ! 0) ^ 2])) \<and>
   (ndims st = 1 \<and> shape st = [length (self_mu c)] \<longrightarrow>
      fst (covariance h2 c) = Inr (tensor_diag (z_pow st 2)) \<and>
      fst (covariance h2 c) = Inr (diag_matrix (map (\<lambda>v. v ^ 2) (data st)))) \<and>
   (ndims st = 2 \<and> shape st = [length (self_mu c), length (self_mu c)] \<longrightarrow>
      fst (covariance h2 c) = Inr st)"
proof (intro impI, elim conjE)
  assume init: "GaussianConstraint_init bk h x_in mu_in sigma = Inr (c, h')"
    and st: "convert_to_tensor h2 sigma = Inr st"
  note wf = convert_to_tensor_wf [OF st]
  have cov: "fst (covariance h2 c) = Inr (spec_Sigma st)"
    if "shape (spec_Sigma st) ! 0 = length (self_mu c)"
       "shape (spec_Sigma st) ! 1 = length (self_mu c)"
    using covariance_gaussian_ok [OF init st that] by (simp add: covariance_gaussian [OF init])
  have r0: "reshape st [1] = Inr (Tensor [1] [data st ! 0]) \<and>
      fst (covariance h2 c) = Inr (tensor_diag (z_pow (Tensor [1] [data st ! 0]) 2)) \<and>
      fst (covariance h2 c) = Inr (Tensor [1, 1] [(data st ! 0) ^ 2])"
    if "ndims st = 0" "length (self_mu c) = 1"
  proof -
    from scalar_tensor [OF st that(1)] have e: "st = Tensor [] [data st ! 0]" .
    have s: "spec_Sigma st = Tensor [1, 1] [(data st ! 0) ^ 2]"
      using that by (simp add: spec_Sigma_def)
    have "reshape st [1] = Inr (Tensor [1] [data st ! 0])"
      by (subst e) (simp add: reshape_def)
    moreover have "tensor_diag (z_pow (Tensor [1] [data st ! 0]) 2) = Tensor [1, 1] [(data st ! 0) ^ 2]"
      by (simp add: tensor_diag_def z_pow_def)
    moreover have "fst (covariance h2 c) = Inr (Tensor [1, 1] [(data st ! 0) ^ 2])"
      using cov that by (simp add: s)
    ultimately show ?thesis by simp
  qed
  have r1: "fst (covariance h2 c) = Inr (tensor_diag (z_pow st 2)) \<and>
      fst (covariance h2 c) = Inr (diag_matrix (map (\<lambda>v. v ^ 2) (data st)))"
    if "ndims st = 1" "shape st = [length (self_mu c)]"
  proof -
    from wf that have n: "length (data st) = length (self_mu c)" by simp
    have s: "spec_Sigma st = diag_matrix (map (\<lambda>v. v ^ 2) (data st))"
      using that by (simp add: spec_Sigma_def)
    have "tensor_diag (z_pow st 2) = diag_matrix (map (\<lambda>v. v ^ 2) (data st))"
      using that n by (simp add: tensor_diag_def z_pow_def diag_matrix_def cong: if_cong)
    moreover have "fst (covariance h2 c) = Inr (diag_matrix (map (\<lambda>v. v ^ 2) (data st)))"
      using cov n by (simp add: s diag_matrix_def)
    ultimately show ?thesis by simp
  qed
  have r2: "fst (covariance h2 c) = Inr st"
    if "ndims st = 2" "shape st = [length (self_mu c), length (self_mu c)]"
    using cov that by (simp add: spec_Sigma_def)
  from r0 r1 r2 show "(ndims st = 0 \<and> length (self_mu c) = 1 \<longrightarrow>
      reshape st [1] = Inr (Tensor [1] [data st ! 0]) \<and>
      fst (covariance h2 c) = Inr (tensor_diag (z_pow (Tensor [1] [data st ! 0]) 2)) \<and>
      fst (covariance h2 c) = Inr (Tensor [1, 1] [(data st ! 0) ^ 2])) \<and>
   (ndims st = 1 \<and> shape st = [length (self_mu c)] \<longrightarrow>
      fst (covariance h2 c) = Inr (tensor_diag (z_pow st 2)) \<and>
      fst (covariance h2 c) = Inr (diag_matrix (map (\<lambda>v. v ^ 2) (data st)))) \<and>
   (ndims st = 2 \<and> shape st = [length (self_mu c), length (self_mu c)] \<longrightarrow>
      fst (covariance h2 c) = Inr st)"
    by blast
qed

theorem covariance_by_rank_witness:
  "(\<exists>c h'. GaussianConstraint_init (ref_backend []) store_abc (One (Lit 5)) (One 0) (Num 2) =
              Inr (c, h') \<and>
            fst (covariance h' c) = Inr (Tensor [1, 1] [4])) \<and>
   (\<exists>c h'. GaussianConstraint_init (ref_backend []) store_abc (Many [Lit 1, Lit 2])
              (Many [0, 1]) (Seq [Num 1, Par 2]) = Inr (c, h') \<and>
            fst (covariance h' c) = Inr (Tensor [2, 2] [1, 0, 0, 9])) \<and>
   (\<exists>c h'. GaussianConstraint_init (ref_backend []) store_abc (Many [Lit 1, Lit 2])
              (Many [0, 1]) (Seq [Seq [Num 2, Num 1], Seq [Num 1, Num 2]]) = Inr (c, h') \<and>
            fst (covariance h' c) = Inr (Tensor [2, 2] [2, 1, 1, 2]))"
proof (intro conjI)
  obtain c h' where init: "GaussianConstraint_init (ref_backend []) store_abc (One (Lit 5))
      (One 0) (Num 2) = Inr (c, h')"
    using GaussianConstraint_init_ex [of "One (Lit 5)" "One 0"] by fastforce
  have st: "convert_to_tensor h' (Num 2) = Inr (Tensor [] [2])" by simp
  from covariance_by_rank [of "ref_backend []" store_abc "One (Lit 5)" "One 0" "Num 2" c h' h'
      "Tensor [] [2]"] init st GaussianConstraint_init_fields(5) [OF init]
  have "fst (covariance h' c) = Inr (Tensor [1, 1] [4])"
    by (simp add: ndims_def tensor_diag_def z_pow_def)
  with init show "\<exists>c h'. GaussianConstraint_init (ref_backend []) store_abc (One (Lit 5))
      (One 0) (Num 2) = Inr (c, h') \<and> fst (covariance h' c) = Inr (Tensor [1, 1] [4])"
    by blast
next
  obtain c h' where init: "GaussianConstraint_init (ref_backend []) store_abc
      (Many [Lit 1, Lit 2]) (Many [0, 1]) (Seq [Num 1, Par 2]) = Inr (c, h')"
    using GaussianConstraint_init_ex [of "Many [Lit 1, Lit 2]" "Many [0, 1]"] by fastforce
  from GaussianConstraint_init_fields(4) [OF init]
  have h': "h' = store_abc @ [\<lparr>pname = ''a_obs'', pvalue = 1, psource = None\<rparr>, \<lparr>pname = ''b_obs'', pvalue = 2, psource = None\<rparr>]"
    by (simp add: store_abc_def name_of_def)
  have st: "convert_to_tensor h' (Seq [Num 1, Par 2]) = Inr (Tensor [2] [1, 3])"
    by (simp add: stack_def h' store_abc_def value_of_def)
  from covariance_by_rank [of "ref_backend []" store_abc "Many [Lit 1, Lit 2]" "Many [0, 1]"
      "Seq [Num 1, Par 2]" c h' h' "Tensor [2] [1, 3]"] init st
      GaussianConstraint_init_fields(5) [OF init]
  have "fst (covariance h' c) = Inr (Tensor [2, 2] [1, 0, 0, 9])"
    by (simp add: ndims_def diag_matrix_def tensor_diag_def z_pow_def upt_rec)
  with init show "\<exists>c h'. GaussianConstraint_init (ref_backend []) store_abc
      (Many [Lit 1, Lit 2]) (Many [0, 1]) (Seq [Num 1, Par 2]) = Inr (c, h') \<and>
      fst (covariance h' c) = Inr (Tensor [2, 2] [1, 0, 0, 9])"
    by blast
next
  obtain c h' where init: "GaussianConstraint_init (ref_backend []) store_abc
      (Many [Lit 1, Lit 2]) (Many [0, 1]) (Seq [Seq [Num 2, Num 1], Seq [Num 1, Num 2]]) =
      Inr (c, h')"
    using GaussianConstraint_init_ex [of "Many [Lit 1, Lit 2]" "Many [0, 1]"] by fastforce
  have st: "convert_to_tensor h' (Seq [Seq [Num 2, Num 1], Seq [Num 1, Num 2]]) =
            Inr (Tensor [2, 2] [2, 1, 1, 2])"
    by (simp add: stack_def)
  from covariance_by_rank [of "ref_backend []" store_abc "Many [Lit 1, Lit 2]" "Many [0, 1]"
      "Seq [Seq [Num 2, Num 1], Seq [Num 1, Num 2]]" c h' h' "Tensor [2, 2] [2, 1, 1, 2]"]
      init st GaussianConstraint_init_fields(5) [OF init]
  have "fst (covariance h' c) = Inr (Tensor [2, 2] [2, 1, 1, 2])"
    by (simp add: ndims_def)
  with init show "\<exists>c h'. GaussianConstraint_init (ref_backend []) store_abc
      (Many [Lit 1, Lit 2]) (Many [0, 1]) (Seq [Seq [Num 2, Num 1], Seq [Num 1, Num 2]]) =
      Inr (c, h') \<and> fst (covariance h' c) = Inr (Tensor [2, 2] [2, 1, 1, 2])"
    by blast
qed

text \<open>
  C1. For a GaussianConstraint built from \<open>x\<close>, \<open>mu\<close> and \<open>sigma\<close> whose covariance is
  N x N for the common length N, \<open>value()\<close> is the negated \<open>log_prob\<close>, at the vector of
  the current observed values, of the multivariate normal that the backend builds from
  \<open>loc = mu\<close> and the covariance of the specification (\<open>spec_Sigma\<close>: the square of a
  scalar as a 1 x 1 matrix, \<open>diag(sigma\<^sub>i\<^sup>2)\<close> for a vector, \<open>sigma\<close> itself for a matrix). With
  the mathematical normal density as backend and a positive definite covariance this is
  \<open>- log N(x; mu, Sigma)\<close>. In particular, for \<open>mu = [1.0, 2.0]\<close>, \<open>sigma = [1.0, 1.0]\<close>
  and \<open>x = [1.0, 2.0]\<close> the covariance is the 2 x 2 identity and the value is \<open>log(2 pi)\<close>.
\<close>

theorem value_negative_log_normal:
  "(GaussianConstraint_init bk h x_in mu_in sigma = Inr (c, h') \<and>
    convert_to_tensor h2 sigma = Inr st \<and>
    shape (spec_Sigma st) = [length (self_mu c), length (self_mu c)] \<longrightarrow>
      fst (value bk h2 c) =
        (case MultivariateNormalFullCovariance bk h2
                [(''loc'', ArgParams (self_mu c)),
                 (''covariance_matrix'', ArgTensor (spec_Sigma st)),
                 (''validate_args'', ArgBool True),
                 (''name'', ArgStr ''GaussianConstraint_tfp'')] of
           Inl e \<Rightarrow> Inl e
         | Inr d \<Rightarrow>
             (case log_prob bk d
                     (Tensor [length (self_x c)] (map (value_of h2) (self_x c))) of
                Inl e \<Rightarrow> Inl e
              | Inr lp \<Rightarrow> Inr (- lp)))) \<and>
   (GaussianConstraint_init (ref_backend outcome) h x_in mu_in sigma = Inr (cr, hr) \<and>
    convert_to_tensor h2 sigma = Inr st \<and>
    shape (spec_Sigma st) = [length (self_mu cr), length (self_mu cr)] \<and>
    positive_definite (rows_of (spec_Sigma st)) \<longrightarrow>
      fst (value (ref_backend outcome) h2 cr) =
        Inr (neg_log_normal (map (value_of h2) (self_x cr)) (map (value_of h2) (self_mu cr))
               (rows_of (spec_Sigma st)))) \<and>
   (\<exists>c2 h2'. GaussianConstraint_init (ref_backend []) store_abc (Many [Lit 1, Lit 2])
                (Many [0, 1]) (Seq [Num 1, Num 1]) = Inr (c2, h2') \<and>
      map (value_of h2') (self_mu c2) = [1, 2] \<and>
      map (value_of h2') (self_x c2) = [1, 2] \<and>
      fst (covariance h2' c2) = Inr (Tensor [2, 2] [1, 0, 0, 1]) \<and>
      fst (value (ref_backend []) h2' c2) = Inr (ln (2 * pi)))"
proof (intro conjI)
  show "GaussianConstraint_init bk h x_in mu_in sigma = Inr (c, h') \<and>
    convert_to_tensor h2 sigma = Inr st \<and>
    shape (spec_Sigma st) = [length (self_mu c), length (self_mu c)] \<longrightarrow>
      fst (value bk h2 c) =
        (case MultivariateNormalFullCovariance bk h2
                [(''loc'', ArgParams (self_mu c)),
                 (''covariance_matrix'', ArgTensor (spec_Sigma st)),
                 (''validate_args'', ArgBool True),
                 (''name'', ArgStr ''GaussianConstraint_tfp'')] of
           Inl e \<Rightarrow> Inl e
         | Inr d \<Rightarrow>
             (case log_prob bk d
                     (Tensor [length (self_x c)] (map (value_of h2) (self_x c))) of
                Inl e \<Rightarrow> Inl e
              | Inr lp \<Rightarrow> Inr (- lp)))"
    using value_gaussian_ok [of bk h x_in mu_in sigma c h' h2 st] by blast
next
  show "GaussianConstraint_init (ref_backend outcome) h x_in mu_in sigma = Inr (cr, hr) \<and>
    convert_to_tensor h2 sigma = Inr st \<and>
    shape (spec_Sigma st) = [length (self_mu cr), length (self_mu cr)] \<and>
    positive_definite (rows_of (spec_Sigma st)) \<longrightarrow>
      fst (value (ref_backend outcome) h2 cr) =
        Inr (neg_log_normal (map (value_of h2) (self_x cr)) (map (value_of h2) (self_mu cr))
               (rows_of (spec_Sigma st)))"
    using value_reference [of outcome h x_in mu_in sigma cr hr h2 st] by blast
next
  obtain c2 h2' where init: "GaussianConstraint_init (ref_backend []) store_abc
      (Many [Lit 1, Lit 2]) (Many [0, 1]) (Seq [Num 1, Num 1]) = Inr (c2, h2')"
    using GaussianConstraint_init_ex [of "Many [Lit 1, Lit 2]" "Many [0, 1]"] by fastforce
  note f = GaussianConstraint_init_fields [OF init]
  have h2': "h2' = store_abc @ [\<lparr>pname = ''a_obs'', pvalue = 1, psource = None\<rparr>, \<lparr>pname = ''b_obs'', pvalue = 2, psource = None\<rparr>]"
    using f(4) by (simp add: store_abc_def name_of_def)
  have sx: "self_x c2 = [3, 4]"
    using f(3) by (simp add: store_abc_def name_of_def)
  have mu: "self_mu c2 = [0, 1]"
    using f(5) by simp
  have vm: "map (value_of h2') (self_mu c2) = [1, 2]"
    by (simp add: mu h2' store_abc_def value_of_def)
  have vx: "map (value_of h2') (self_x c2) = [1, 2]"
    by (simp add: sx h2' store_abc_def value_of_def)
  have st: "convert_to_tensor h2' (Seq [Num 1, Num 1]) = Inr (Tensor [2] [1, 1])"
    by (simp add: stack_def)
  have sg: "spec_Sigma (Tensor [2] [1, 1]) = Tensor [2, 2] [1, 0, 0, 1]"
    by (simp add: spec_Sigma_def ndims_def diag_matrix_def upt_rec)
  have cv: "fst (covariance h2' c2) = Inr (Tensor [2, 2] [1, 0, 0, 1])"
    using covariance_gaussian_ok [OF init st] mu
    by (simp add: covariance_gaussian [OF init] sg)
  have "fst (value (ref_backend []) h2' c2) =
        Inr (neg_log_normal (map (value_of h2') (self_x c2)) (map (value_of h2') (self_mu c2))
               (rows_of (spec_Sigma (Tensor [2] [1, 1]))))"
    by (rule value_reference [OF init st]) (simp_all add: sg mu identity_2x2)
  then have val: "fst (value (ref_backend []) h2' c2) = Inr (ln (2 * pi))"
    by (simp add: vm vx sg identity_2x2)
  show "\<exists>c2 h2'. GaussianConstraint_init (ref_backend []) store_abc
      (Many [Lit 1, Lit 2]) (Many [0, 1]) (Seq [Num 1, Num 1]) = Inr (c2, h2') \<and>
      map (value_of h2') (self_mu c2) = [1, 2] \<and>
      map (value_of h2') (self_x c2) = [1, 2] \<and>
      fst (covariance h2' c2) = Inr (Tensor [2, 2] [1, 0, 0, 1]) \<and>
      fst (value (ref_backend []) h2' c2) = Inr (ln (2 * pi))"
    by (rule exI [of _ c2], rule exI [of _ h2'], intro conjI) (rule init vm vx cv val)+
qed

theorem value_negative_log_normal_witness:
  "\<exists>c h'. GaussianConstraint_init (ref_backend []) store_m (Many [Lit 5]) (Many [0]) (Num 2) =
            Inr (c, h') \<and>
          fst (value (ref_backend []) h' c) = Inr ((ln (2 * pi) + ln 4) / 2)"
proof -
  obtain c h' where init: "GaussianConstraint_init (ref_backend []) store_m (Many [Lit 5])
      (Many [0]) (Num 2) = Inr (c, h')"
    using GaussianConstraint_init_ex [of "Many [Lit 5]" "Many [0]"] by fastforce
  note f = GaussianConstraint_init_fields [OF init]
  have h': "h' = store_m @ [\<lparr>pname = ''m_obs'', pvalue = 5, psource = None\<rparr>]"
    using f(4) by (simp add: store_m_def name_of_def)
  have sx: "self_x c = [1]"
    using f(3) by (simp add: store_m_def name_of_def)
  have mu: "self_mu c = [0]"
    using f(5) by simp
  have st: "convert_to_tensor h' (Num 2) = Inr (Tensor [] [2])"
    by simp
  have sg: "spec_Sigma (Tensor [] [2]) = Tensor [1, 1] [4]"
    by (simp add: spec_Sigma_def ndims_def)
  have pd: "positive_definite (rows_of (spec_Sigma (Tensor [] [2])))"
    by (simp only: sg variance_4)
  have sh: "shape (spec_Sigma (Tensor [] [2])) = [length (self_mu c), length (self_mu c)]"
    by (simp add: sg mu)
  from value_negative_log_normal
         [where outcome = "[]" and h = store_m and x_in = "Many [Lit 5]" and mu_in = "Many [0]"
            and sigma = "Num 2" and cr = c and hr = h' and ?h2.0 = h' and st = "Tensor [] [2]",
          THEN conjunct2, THEN conjunct1] init st sh pd
  have "fst (value (ref_backend []) h' c) =
        Inr (neg_log_normal (map (value_of h') (self_x c)) (map (value_of h') (self_mu c))
               (rows_of (spec_Sigma (Tensor [] [2]))))"
    by blast
  moreover have "map (value_of h') (self_x c) = [5]" "map (value_of h') (self_mu c) = [5]"
    by (simp_all add: mu sx h' store_m_def value_of_def)
  ultimately have "fst (value (ref_backend []) h' c) = Inr ((ln (2 * pi) + ln 4) / 2)"
    by (simp only: sg variance_4)
  with init show ?thesis by blast
qed

text \<open>
  C7. \<open>SimpleConstraint.value()\<close> calls the user's function and returns its result as it
  is, whatever parameters were passed for the bookkeeping of dependents, with no shape
  check. In particular the constraint of \<open>lambda: 3.0\<close> over \<open>[p]\<close> has the value 3.0
  for every current value of \<open>p\<close>.
\<close>

theorem SimpleConstraint_value_is_func:
  "(SimpleConstraint_init func params = Inr c \<longrightarrow>
      fst (SimpleConstraint_value h c) = func h \<and> snd (SimpleConstraint_value h c) = c) \<and>
   (\<exists>c3. SimpleConstraint_init (\<lambda>_. Inr (3::real)) (Some (Many [p])) = Inr c3 \<and>
      (\<forall>h0 v. fst (SimpleConstraint_value (set_value h0 p v) c3) = Inr 3))"
  by (auto simp: SimpleConstraint_init_def SimpleConstraint_value_def
      SimpleConstraint_value_impl_def Let_def split: option.splits)

theorem SimpleConstraint_value_is_func_witness:
  "\<exists>c. SimpleConstraint_init (\<lambda>h. Inr (value_of h 0 + 1)) (Some (Many [0, 1])) = Inr c \<and>
     fst (SimpleConstraint_value store_abc c) = Inr 2 \<and>
     fst (SimpleConstraint_value (set_value store_abc 1 7) c) = Inr 2"
proof -
  obtain c where init: "SimpleConstraint_init (\<lambda>h. Inr (value_of h 0 + 1)) (Some (Many [0, 1])) = Inr c"
    using SimpleConstraint_init_Some [of "\<lambda>h. Inr (value_of h 0 + 1)" "Many [0, 1]"] by blast
  from SimpleConstraint_value_is_func [of "\<lambda>h. Inr (value_of h 0 + 1)" "Some (Many [0, 1])" c store_abc]
    init
  have a: "fst (SimpleConstraint_value store_abc c) = Inr 2"
    by (simp add: store_abc_def value_of_def)
  from SimpleConstraint_value_is_func [of "\<lambda>h. Inr (value_of h 0 + 1)" "Some (Many [0, 1])" c
      "set_value store_abc 1 7"] init
  have b: "fst (SimpleConstraint_value (set_value store_abc 1 7) c) = Inr 2"
    by (simp add: store_abc_def value_of_def set_value_def)
  from init a b show ?thesis by blast
qed

text \<open>
  C8. The default \<open>get_dependents()\<close> is the set of the parameters of the \<open>params\<close>
  mapping; for a GaussianConstraint that set is the set of the \<open>mu\<close> parameters.
\<close>

theorem get_dependents_params:
  "get_dependents c = set (dict_values (self_params c)) \<and>
   (GaussianConstraint_init bk h x_in mu_in sigma = Inr (g, h') \<longrightarrow>
      get_dependents g = set (convert_to_container mu_in) \<and>
      get_dependents g = set (self_mu g))"
proof -
  have "get_dependents g = set (convert_to_container mu_in) \<and>
      get_dependents g = set (self_mu g)"
    if init: "GaussianConstraint_init bk h x_in mu_in sigma = Inr (g, h')"
    using GaussianConstraint_init_fields(5) [OF init] GaussianConstraint_init_values [OF init]
    by (simp add: get_dependents_def get_params_def extract_dependents_def)
  moreover have "get_dependents c = set (dict_values (self_params c))"
    by (simp add: get_dependents_def get_params_def extract_dependents_def)
  ultimately show ?thesis by blast
qed

theorem get_dependents_params_witness:
  "\<exists>g h'. GaussianConstraint_init (ref_backend []) store_abc (Many [Lit 1, Lit 2])
             (Many [2, 0]) (Seq [Num 1, Num 1]) = Inr (g, h') \<and>
     get_dependents g = {0, 2}"
proof -
  obtain g h' where init: "GaussianConstraint_init (ref_backend []) store_abc
      (Many [Lit 1, Lit 2]) (Many [2, 0]) (Seq [Num 1, Num 1]) = Inr (g, h')"
    using GaussianConstraint_init_ex [of "Many [Lit 1, Lit 2]" "Many [2, 0]"] by fastforce
  from get_dependents_params [of g "ref_backend []" store_abc "Many [Lit 1, Lit 2]"
      "Many [2, 0]" "Seq [Num 1, Num 1]" g h'] init
  have "get_dependents g = {0, 2}" by auto
  with init show ?thesis by blast
qed

text \<open>
  C9. A DistributionConstraint constructed without \<open>dist_kwargs\<close> (or with None) is
  accepted as with any other value, and stores the empty mapping. Every access of
  \<open>distribution\<close> then hands the factory the evaluated \<open>dist_params\<close> followed by the
  derived name only; the only failures left are those of \<open>dist_params\<close> and of the
  factory, and the TypeError of a \<open>dist_params\<close> that itself has a key \<open>name\<close>.
\<close>

theorem dist_kwargs_default:
  "length (convert_to_container x_in) = length params \<longrightarrow>
     (\<exists>c h'. DistributionConstraint_init h x_in params factory d_params None name = Inr (c, h') \<and>
        dist_kwargs c = Literal [] \<and>
        (\<forall>h2. fst (distribution h2 c) =
           (case call_provider d_params h2 (self_x c) of
              Inl e \<Rightarrow> Inl e
            | Inr ps \<Rightarrow>
                if distinct (map fst ps @ [''name''])
                then factory h2 (ps @ [(''name'', ArgStr (name @ ''_tfp''))])
                else Inl TypeError)))"
  by (auto simp: DistributionConstraint_init_def SamplableConstraint_init_match distribution_def
      call_provider_def call_with_kwargs_def split: sum.splits provider.splits)

theorem dist_kwargs_default_witness:
  "\<exists>c h'. DistributionConstraint_init store_m (One (Lit 5)) [(''param_0'', 0)] ref_mvn
       (Literal [(''loc'', ArgParams [0]), (''covariance_matrix'', ArgTensor (Tensor [1, 1] [4]))])
       None ''DistributionConstraint'' = Inr (c, h') \<and>
     dist_kwargs c = Literal [] \<and>
     fst (distribution h' c) = Inr (MVN [5] [[4]])"
proof -
  from dist_kwargs_default [of "One (Lit 5)" "[(''param_0'', 0)]" store_m ref_mvn
      "Literal [(''loc'', ArgParams [0]), (''covariance_matrix'', ArgTensor (Tensor [1, 1] [4]))]"
      "''DistributionConstraint''"]
  obtain c h' where init: "DistributionConstraint_init store_m (One (Lit 5)) [(''param_0'', 0)] ref_mvn
       (Literal [(''loc'', ArgParams [0]), (''covariance_matrix'', ArgTensor (Tensor [1, 1] [4]))])
       None ''DistributionConstraint'' = Inr (c, h')"
    and kw: "dist_kwargs c = Literal []"
    and d: "\<And>h2. fst (distribution h2 c) =
           (case call_provider (Literal [(''loc'', ArgParams [0]),
                    (''covariance_matrix'', ArgTensor (Tensor [1, 1] [4]))]) h2 (self_x c) of
              Inl e \<Rightarrow> Inl e
            | Inr ps \<Rightarrow>
                if distinct (map fst ps @ [''name''])
                then ref_mvn h2 (ps @ [(''name'', ArgStr (''DistributionConstraint'' @ ''_tfp''))])
                else Inl TypeError)"
    by auto
  have "fst (distribution h' c) = Inr (MVN [value_of h' 0] [[4]])"
    by (simp add: d call_provider_def ref_mvn_def rows_of_def upt_rec)
  moreover from init have "h' = store_m @ [\<lparr>pname = ''m_obs'', pvalue = 5, psource = None\<rparr>]"
    by (simp add: DistributionConstraint_init_def SamplableConstraint_init_match store_m_def
        name_of_def dict_values_def)
  ultimately have "fst (distribution h' c) = Inr (MVN [5] [[4]])"
    by (simp add: store_m_def value_of_def)
  with init kw show ?thesis by blast
qed

text \<open>
  C5. For a constraint as its constructor leaves it, and every \<open>n\<close> for which the
  backend's draw has \<open>n\<close> rows of \<open>N\<close> columns (\<open>N\<close> the number of parameters), \<open>sample(n)\<close>
  returns the mapping with the \<open>N\<close> pairwise distinct observed-value parameters of \<open>x\<close>
  as keys, in the order of construction, the \<open>i\<close>-th of them mapped to column \<open>i\<close> of the
  draw, a series of length \<open>n\<close>.
\<close>

theorem sample_mapping:
  "(DistributionConstraint_init h0 x_in params factory d_params d_kwargs name = Inr (c, h1) \<and>
    fst (distribution h c) = Inr d \<and> sample_rows bk d n = Inr rows \<and> length rows = n \<and>
    list_all (\<lambda>r. length r = length params) rows \<longrightarrow>
      fst (sample bk h n c) =
        Inr (zip (self_x c) (map (\<lambda>i. map (\<lambda>r. r ! i) rows) [0..<length params])) \<and>
      length (self_x c) = length params \<and> distinct (self_x c) \<and>
      list_all (\<lambda>v. length v = n) (map (\<lambda>i. map (\<lambda>r. r ! i) rows) [0..<length params])) \<and>
   (GaussianConstraint_init bk h0 x_in mu_in sigma = Inr (g, hg) \<and>
    fst (distribution h g) = Inr d \<and> sample_rows bk d n = Inr rows \<and> length rows = n \<and>
    list_all (\<lambda>r. length r = length (self_mu g)) rows \<longrightarrow>
      fst (sample bk h n g) =
        Inr (zip (self_x g) (map (\<lambda>i. map (\<lambda>r. r ! i) rows) [0..<length (self_mu g)])) \<and>
      length (self_x g) = length (self_mu g) \<and> distinct (self_x g) \<and>
      list_all (\<lambda>v. length v = n) (map (\<lambda>i. map (\<lambda>r. r ! i) rows) [0..<length (self_mu g)]))"
proof (intro conjI)
  show "DistributionConstraint_init h0 x_in params factory d_params d_kwargs name = Inr (c, h1) \<and>
    fst (distribution h c) = Inr d \<and> sample_rows bk d n = Inr rows \<and> length rows = n \<and>
    list_all (\<lambda>r. length r = length params) rows \<longrightarrow>
      fst (sample bk h n c) =
        Inr (zip (self_x c) (map (\<lambda>i. map (\<lambda>r. r ! i) rows) [0..<length params])) \<and>
      length (self_x c) = length params \<and> distinct (self_x c) \<and>
      list_all (\<lambda>v. length v = n) (map (\<lambda>i. map (\<lambda>r. r ! i) rows) [0..<length params])"
  proof (intro impI, elim conjE)
  assume init: "DistributionConstraint_init h0 x_in params factory d_params d_kwargs name = Inr (c, h1)"
    and d: "fst (distribution h c) = Inr d" and rows: "sample_rows bk d n = Inr rows"
    and n: "length rows = n" and cols: "list_all (\<lambda>r. length r = length params) rows"
  note f = DistributionConstraint_init_fields [OF init]
  let ?zs = "zip (convert_to_container x_in) (dict_values params)"
  have lz: "length ?zs = length params"
    using f(2) by (simp add: dict_values_def)
  from sample_constructed [of c h0 ?zs h d bk n rows] f(1) d rows n cols lz
  show "fst (sample bk h n c) =
        Inr (zip (self_x c) (map (\<lambda>i. map (\<lambda>r. r ! i) rows) [0..<length params])) \<and>
      length (self_x c) = length params \<and> distinct (self_x c) \<and>
      list_all (\<lambda>v. length v = n) (map (\<lambda>i. map (\<lambda>r. r ! i) rows) [0..<length params])"
    by simp
  qed
next
  show "GaussianConstraint_init bk h0 x_in mu_in sigma = Inr (g, hg) \<and>
    fst (distribution h g) = Inr d \<and> sample_rows bk d n = Inr rows \<and> length rows = n \<and>
    list_all (\<lambda>r. length r = length (self_mu g)) rows \<longrightarrow>
      fst (sample bk h n g) =
        Inr (zip (self_x g) (map (\<lambda>i. map (\<lambda>r. r ! i) rows) [0..<length (self_mu g)])) \<and>
      length (self_x g) = length (self_mu g) \<and> distinct (self_x g) \<and>
      list_all (\<lambda>v. length v = n) (map (\<lambda>i. map (\<lambda>r. r ! i) rows) [0..<length (self_mu g)])"
  proof (intro impI, elim conjE)
  assume init: "GaussianConstraint_init bk h0 x_in mu_in sigma = Inr (g, hg)"
    and d: "fst (distribution h g) = Inr d" and rows: "sample_rows bk d n = Inr rows"
    and n: "length rows = n" and cols: "list_all (\<lambda>r. length r = length (self_mu g)) rows"
  note f = GaussianConstraint_init_fields [OF init]
  let ?zs = "zip (convert_to_container x_in) (convert_to_container mu_in)"
  have lz: "length ?zs = length (self_mu g)"
    using GaussianConstraint_init_lengths [OF init] f(5) by simp
  from sample_constructed [of g h0 ?zs h d bk n rows] f(3) d rows n cols lz
  show "fst (sample bk h n g) =
        Inr (zip (self_x g) (map (\<lambda>i. map (\<lambda>r. r ! i) rows) [0..<length (self_mu g)])) \<and>
      length (self_x g) = length (self_mu g) \<and> distinct (self_x g) \<and>
      list_all (\<lambda>v. length v = n) (map (\<lambda>i. map (\<lambda>r. r ! i) rows) [0..<length (self_mu g)])"
    by simp
  qed
qed

theorem sample_mapping_witness:
  "\<exists>c h'. GaussianConstraint_init (ref_backend [[10, 20], [30, 40]]) store_abc
       (Many [Lit 1, Ref 2]) (Many [0, 1]) (Seq [Num 1, Num 1]) = Inr (c, h') \<and>
     self_x c = [3, 4] \<and>
     fst (sample (ref_backend [[10, 20], [30, 40]]) h' 2 c) = Inr [(3, [10, 30]), (4, [20, 40])]"
proof -
  let ?bk = "ref_backend [[10, 20], [30, 40]]"
  obtain c h' where init: "GaussianConstraint_init ?bk store_abc
      (Many [Lit 1, Ref 2]) (Many [0, 1]) (Seq [Num 1, Num 1]) = Inr (c, h')"
    using GaussianConstraint_init_ex [of "Many [Lit 1, Ref 2]" "Many [0, 1]"] by fastforce
  note f = GaussianConstraint_init_fields [OF init]
  have sx: "self_x c = [3, 4]"
    using f(3) by (simp add: store_abc_def name_of_def)
  have mu: "self_mu c = [0, 1]"
    using f(5) by simp
  have d: "fst (distribution h' c) =
           Inr (MVN (map (value_of h') (self_mu c)) (rows_of (spec_Sigma (Tensor [2] [1, 1]))))"
    by (rule distribution_reference [OF init sigma_11]) (simp_all add: spec_Sigma_11 mu identity_2x2)
  have r: "sample_rows ?bk (MVN (map (value_of h') (self_mu c))
             (rows_of (spec_Sigma (Tensor [2] [1, 1])))) 2 = Inr [[10, 20], [30, 40]]"
    by (simp add: ref_backend_def mu)
  from sample_mapping [where bk = ?bk and ?h0.0 = store_abc and x_in = "Many [Lit 1, Ref 2]"
      and mu_in = "Many [0, 1]" and sigma = "Seq [Num 1, Num 1]" and g = c and hg = h'
      and h = h' and n = 2 and rows = "[[10, 20], [30, 40]]"
      and d = "MVN (map (value_of h') (self_mu c)) (rows_of (spec_Sigma (Tensor [2] [1, 1])))",
      THEN conjunct2] init d r
  have "fst (sample ?bk h' 2 c) =
        Inr (zip (self_x c) (map (\<lambda>i. map (\<lambda>r. r ! i) [[10, 20], [30, 40]])
               [0..<length (self_mu c)]))"
    by (simp add: mu)
  then have "fst (sample ?bk h' 2 c) = Inr [(3, [10, 30]), (4, [20, 40])]"
    by (simp add: sx mu upt_rec)
  with init sx show ?thesis by blast
qed

text \<open>
  C6. Every access of \<open>distribution\<close> computes anew, from the store it is called in:
  it evaluates \<open>dist_params\<close> and \<open>dist_kwargs\<close> (a callable is called, a literal mapping
  is taken as it is), adds the name of the constraint followed by \<open>_tfp\<close>, and calls the
  factory; the constraint keeps no distribution and is not changed. For a
  GaussianConstraint the covariance and the location are therefore those of the current
  store: with \<open>mu = [a]\<close>, \<open>sigma = b\<close> (parameters of values 1 and 2) and \<open>x = [1.0]\<close>,
  setting \<open>a\<close> to 3, or \<open>b\<close> to 3, changes the next \<open>value()\<close> of the same constraint.
\<close>

theorem distribution_recomputed:
  "fst (distribution h c) =
     (case call_provider (dist_params c) h (self_x c) of
        Inl e \<Rightarrow> Inl e
      | Inr ps \<Rightarrow>
          (case call_provider (dist_kwargs c) h (self_x c) of
             Inl e \<Rightarrow> Inl e
           | Inr ks \<Rightarrow>
               call_with_kwargs (self_distribution c) h ps ks (self_name c @ ''_tfp''))) \<and>
   snd (distribution h c) = c \<and>
   call_provider (Callable f) h sx = f h sx \<and>
   call_provider (Literal kw) h sx = Inr kw \<and>
   (GaussianConstraint_init bk h0 x_in mu_in sigma = Inr (g, h1) \<longrightarrow>
      fst (distribution h g) =
        (case create_covariance h (self_x g) (self_mu g) sigma of
           Inl e \<Rightarrow> Inl e
         | Inr cv \<Rightarrow>
             MultivariateNormalFullCovariance bk h
               [(''loc'', ArgParams (self_mu g)),
                (''covariance_matrix'', ArgTensor cv),
                (''validate_args'', ArgBool True),
                (''name'', ArgStr ''GaussianConstraint_tfp'')])) \<and>
   (\<exists>g2 h2. GaussianConstraint_init (ref_backend []) store_abc (One (Lit 1)) (One 0) (Par 1) =
               Inr (g2, h2) \<and>
      fst (value (ref_backend []) h2 g2) = Inr ((ln (2 * pi) + ln 4) / 2) \<and>
      fst (value (ref_backend []) (set_value h2 0 3) g2) = Inr ((ln (2 * pi) + ln 4 + 1) / 2) \<and>
      fst (value (ref_backend []) (set_value h2 1 3) g2) = Inr ((ln (2 * pi) + ln 9) / 2) \<and>
      fst (value (ref_backend []) (set_value h2 0 3) g2) \<noteq> fst (value (ref_backend []) h2 g2) \<and>
      fst (value (ref_backend []) (set_value h2 1 3) g2) \<noteq> fst (value (ref_backend []) h2 g2))"
proof (intro conjI)
  show "fst (distribution h c) =
     (case call_provider (dist_params c) h (self_x c) of
        Inl e \<Rightarrow> Inl e
      | Inr ps \<Rightarrow>
          (case call_provider (dist_kwargs c) h (self_x c) of
             Inl e \<Rightarrow> Inl e
           | Inr ks \<Rightarrow>
               call_with_kwargs (self_distribution c) h ps ks (self_name c @ ''_tfp'')))"
    by (simp add: distribution_def split: sum.splits)
  show "snd (distribution h c) = c"
    by (rule distribution_snd)
  show "call_provider (Callable f) h sx = f h sx"
    by (simp add: call_provider_def)
  show "call_provider (Literal kw) h sx = Inr kw"
    by (simp add: call_provider_def)
  show "GaussianConstraint_init bk h0 x_in mu_in sigma = Inr (g, h1) \<longrightarrow>
      fst (distribution h g) =
        (case create_covariance h (self_x g) (self_mu g) sigma of
           Inl e \<Rightarrow> Inl e
         | Inr cv \<Rightarrow>
             MultivariateNormalFullCovariance bk h
               [(''loc'', ArgParams (self_mu g)),
                (''covariance_matrix'', ArgTensor cv),
                (''validate_args'', ArgBool True),
                (''name'', ArgStr ''GaussianConstraint_tfp'')])"
  proof
    assume init: "GaussianConstraint_init bk h0 x_in mu_in sigma = Inr (g, h1)"
    show "fst (distribution h g) =
        (case create_covariance h (self_x g) (self_mu g) sigma of
           Inl e \<Rightarrow> Inl e
         | Inr cv \<Rightarrow>
             MultivariateNormalFullCovariance bk h
               [(''loc'', ArgParams (self_mu g)),
                (''covariance_matrix'', ArgTensor cv),
                (''validate_args'', ArgBool True),
                (''name'', ArgStr ''GaussianConstraint_tfp'')])"
      by (simp only: distribution_gaussian [OF init] GaussianConstraint_init_fields(5) [OF init]
          fst_conv)
  qed
next
  let ?bk = "ref_backend [] :: mvn backend"
  obtain g2 h2 where init: "GaussianConstraint_init ?bk store_abc (One (Lit 1)) (One 0) (Par 1) =
      Inr (g2, h2)"
    using GaussianConstraint_init_ex [of "One (Lit 1)" "One 0"] by fastforce
  note f = GaussianConstraint_init_fields [OF init]
  have h2: "h2 = store_abc @ [\<lparr>pname = ''a_obs'', pvalue = 1, psource = None\<rparr>]"
    using f(4) by (simp add: store_abc_def name_of_def)
  have sx: "self_x g2 = [3]"
    using f(3) by (simp add: store_abc_def name_of_def)
  have mu: "self_mu g2 = [0]"
    using f(5) by simp
  have v0: "fst (value ?bk h2 g2) = Inr ((ln (2 * pi) + ln 4) / 2)"
  proof -
    have st: "convert_to_tensor h2 (Par 1) = Inr (Tensor [] [2])"
      by (simp add: h2 store_abc_def value_of_def)
    have sg: "spec_Sigma (Tensor [] [2]) = Tensor [1, 1] [4]"
      by (simp add: spec_Sigma_scalar)
    have "fst (value ?bk h2 g2) =
          Inr (neg_log_normal (map (value_of h2) (self_x g2)) (map (value_of h2) (self_mu g2))
                 (rows_of (spec_Sigma (Tensor [] [2]))))"
      by (rule value_reference [OF init st]) (simp_all only: sg variance_4, simp add: mu)
    moreover have "map (value_of h2) (self_x g2) = [1]" "map (value_of h2) (self_mu g2) = [1]"
      by (simp_all add: sx mu h2 store_abc_def value_of_def)
    ultimately show ?thesis
      by (simp only: sg variance_4 variance_examples)
  qed
  have v1: "fst (value ?bk (set_value h2 0 3) g2) = Inr ((ln (2 * pi) + ln 4 + 1) / 2)"
  proof -
    have st: "convert_to_tensor (set_value h2 0 3) (Par 1) = Inr (Tensor [] [2])"
      by (simp add: h2 store_abc_def value_of_def set_value_def)
    have sg: "spec_Sigma (Tensor [] [2]) = Tensor [1, 1] [4]"
      by (simp add: spec_Sigma_scalar)
    have "fst (value ?bk (set_value h2 0 3) g2) =
          Inr (neg_log_normal (map (value_of (set_value h2 0 3)) (self_x g2))
                 (map (value_of (set_value h2 0 3)) (self_mu g2))
                 (rows_of (spec_Sigma (Tensor [] [2]))))"
      by (rule value_reference [OF init st]) (simp_all only: sg variance_4, simp add: mu)
    moreover have "map (value_of (set_value h2 0 3)) (self_x g2) = [1]"
      "map (value_of (set_value h2 0 3)) (self_mu g2) = [3]"
      by (simp_all add: sx mu h2 store_abc_def value_of_def set_value_def)
    ultimately show ?thesis
      by (simp only: sg variance_4 variance_examples)
  qed
  have v2: "fst (value ?bk (set_value h2 1 3) g2) = Inr ((ln (2 * pi) + ln 9) / 2)"
  proof -
    have st: "convert_to_tensor (set_value h2 1 3) (Par 1) = Inr (Tensor [] [3])"
      by (simp add: h2 store_abc_def value_of_def set_value_def)
    have sg: "spec_Sigma (Tensor [] [3]) = Tensor [1, 1] [9]"
      by (simp add: spec_Sigma_scalar)
    have "fst (value ?bk (set_value h2 1 3) g2) =
          Inr (neg_log_normal (map (value_of (set_value h2 1 3)) (self_x g2))
                 (map (value_of (set_value h2 1 3)) (self_mu g2))
                 (rows_of (spec_Sigma (Tensor [] [3]))))"
      by (rule value_reference [OF init st]) (simp_all only: sg variance_examples, simp add: mu)
    moreover have "map (value_of (set_value h2 1 3)) (self_x g2) = [1]"
      "map (value_of (set_value h2 1 3)) (self_mu g2) = [1]"
      by (simp_all add: sx mu h2 store_abc_def value_of_def set_value_def)
    ultimately show ?thesis
      by (simp only: sg variance_examples)
  qed
  have n1: "fst (value ?bk (set_value h2 0 3) g2) \<noteq> fst (value ?bk h2 g2)"
    unfolding v0 v1 by simp
  have "ln (9::real) \<noteq> ln 4" by simp
  then have n2: "fst (value ?bk (set_value h2 1 3) g2) \<noteq> fst (value ?bk h2 g2)"
    unfolding v0 v2 by simp
  show "\<exists>g2 h2. GaussianConstraint_init (ref_backend []) store_abc (One (Lit 1)) (One 0) (Par 1) =
               Inr (g2, h2) \<and>
      fst (value (ref_backend []) h2 g2) = Inr ((ln (2 * pi) + ln 4) / 2) \<and>
      fst (value (ref_backend []) (set_value h2 0 3) g2) = Inr ((ln (2 * pi) + ln 4 + 1) / 2) \<and>
      fst (value (ref_backend []) (set_value h2 1 3) g2) = Inr ((ln (2 * pi) + ln 9) / 2) \<and>
      fst (value (ref_backend []) (set_value h2 0 3) g2) \<noteq> fst (value (ref_backend []) h2 g2) \<and>
      fst (value (ref_backend []) (set_value h2 1 3) g2) \<noteq> fst (value (ref_backend []) h2 g2)"
    by (rule exI [of _ g2], rule exI [of _ h2], intro conjI) (rule init v0 v1 v2 n1 n2)+
qed


theorem distribution_recomputed_witness:
  "\<exists>g h'. GaussianConstraint_init (ref_backend []) store_m (One (Lit 5)) (One 0) (Num 2) =
            Inr (g, h') \<and>
     fst (distribution h' g) = Inr (MVN [5] [[4]]) \<and>
     fst (distribution (set_value h' 0 6) g) = Inr (MVN [6] [[4]])"
proof -
  let ?bk = "ref_backend [] :: mvn backend"
  obtain g h' where init: "GaussianConstraint_init ?bk store_m (One (Lit 5)) (One 0) (Num 2) =
      Inr (g, h')"
    using GaussianConstraint_init_ex [of "One (Lit 5)" "One 0"] by fastforce
  note f = GaussianConstraint_init_fields [OF init]
  have h': "h' = store_m @ [\<lparr>pname = ''m_obs'', pvalue = 5, psource = None\<rparr>]"
    using f(4) by (simp add: store_m_def name_of_def)
  have sx: "self_x g = [1]"
    using f(3) by (simp add: store_m_def name_of_def)
  have mu: "self_mu g = [0]"
    using f(5) by simp
  have cc: "create_covariance h2 (self_x g) [0] (Num 2) = Inr (Tensor [1, 1] [4])" for h2
    by (simp add: create_covariance_eq [of h2 "Num 2" "Tensor [] [2]"] spec_Sigma_scalar sx)
  have mv: "MultivariateNormalFullCovariance ?bk h2
               [(''loc'', ArgParams [0]),
                (''covariance_matrix'', ArgTensor (Tensor [1, 1] [4])),
                (''validate_args'', ArgBool True),
                (''name'', ArgStr ''GaussianConstraint_tfp'')] =
            Inr (MVN [value_of h2 0] [[4]])" for h2
    by (simp add: ref_backend_def ref_mvn_def rows_of_1x1 positive_definite_1x1)
  from distribution_recomputed [where h = h' and bk = ?bk and ?h0.0 = store_m
      and x_in = "One (Lit 5)" and mu_in = "One 0" and sigma = "Num 2" and g = g and ?h1.0 = h']
    init
  have "fst (distribution h' g) =
        (case create_covariance h' (self_x g) (self_mu g) (Num 2) of
           Inl e \<Rightarrow> Inl e
         | Inr cv \<Rightarrow>
             MultivariateNormalFullCovariance ?bk h'
               [(''loc'', ArgParams (self_mu g)),
                (''covariance_matrix'', ArgTensor cv),
                (''validate_args'', ArgBool True),
                (''name'', ArgStr ''GaussianConstraint_tfp'')])"
    by blast
  then have "fst (distribution h' g) = Inr (MVN [value_of h' 0] [[4]])"
    by (simp only: mu cc sum.case mv)
  then have a: "fst (distribution h' g) = Inr (MVN [5] [[4]])"
    by (simp add: h' store_m_def value_of_def)
  from distribution_recomputed [where h = "set_value h' 0 6" and bk = ?bk and ?h0.0 = store_m
      and x_in = "One (Lit 5)" and mu_in = "One 0" and sigma = "Num 2" and g = g and ?h1.0 = h']
    init
  have "fst (distribution (set_value h' 0 6) g) =
        (case create_covariance (set_value h' 0 6) (self_x g) (self_mu g) (Num 2) of
           Inl e \<Rightarrow> Inl e
         | Inr cv \<Rightarrow>
             MultivariateNormalFullCovariance ?bk (set_value h' 0 6)
               [(''loc'', ArgParams (self_mu g)),
                (''covariance_matrix'', ArgTensor cv),
                (''validate_args'', ArgBool True),
                (''name'', ArgStr ''GaussianConstraint_tfp'')])"
    by blast
  then have "fst (distribution (set_value h' 0 6) g) =
             Inr (MVN [value_of (set_value h' 0 6) 0] [[4]])"
    by (simp only: mu cc sum.case mv)
  then have b: "fst (distribution (set_value h' 0 6) g) = Inr (MVN [6] [[4]])"
    by (simp add: h' store_m_def value_of_def set_value_def)
  from init a b show ?thesis by blast
qed

text \<open>
  C10. After a successful construction of a SamplableConstraint (and so of a
  GaussianConstraint) from parameters that exist in the store, \<open>x\<close> has one entry per
  entry of \<open>params\<close>, in the same order, and its entries are pairwise distinct: the
  \<open>i\<close>-th is a new holder named after the \<open>i\<close>-th parameter, wrapping the \<open>i\<close>-th observed
  literal or referring to the \<open>i\<close>-th observed parameter. For a GaussianConstraint the
  parameters of \<open>params\<close> are \<open>mu\<close>, in order. The accessors \<open>x\<close> and \<open>mu\<close> return the
  stored sequences, and \<open>value()\<close>, \<open>sample(n)\<close>, \<open>covariance\<close> and \<open>distribution\<close> leave
  the constraint as it was.
\<close>

theorem structural_state:
  "(list_all (\<lambda>p. p < length h) (dict_values params) \<and>
    SamplableConstraint_init h x_in params name = Inr (s, hs) \<longrightarrow>
      self_params s = params \<and>
      length (self_x s) = length (self_params s) \<and>
      distinct (self_x s) \<and>
      list_all2 (observed_of h hs)
        (zip (convert_to_container x_in) (dict_values (self_params s))) (self_x s)) \<and>
   (list_all (\<lambda>p. p < length h) (convert_to_container mu_in) \<and>
    GaussianConstraint_init bk h x_in mu_in sigma = Inr (g, hg) \<longrightarrow>
      self_mu g = convert_to_container mu_in \<and>
      dict_values (self_params g) = self_mu g \<and>
      length (self_x g) = length (self_params g) \<and>
      distinct (self_x g) \<and>
      list_all2 (observed_of h hg) (zip (convert_to_container x_in) (self_mu g)) (self_x g)) \<and>
   x_property c = (self_x c, c) \<and>
   mu_property g2 = (self_mu g2, g2) \<and>
   snd (covariance h2 g2) = g2 \<and>
   snd (distribution h2 d2) = d2 \<and>
   snd (value bk2 h2 d2) = d2 \<and>
   snd (sample bk2 h2 n d2) = d2"
proof -
  have a: "self_params s = params \<and>
      length (self_x s) = length (self_params s) \<and>
      distinct (self_x s) \<and>
      list_all2 (observed_of h hs)
        (zip (convert_to_container x_in) (dict_values (self_params s))) (self_x s)"
    if valid: "list_all (\<lambda>p. p < length h) (dict_values params)"
      and init: "SamplableConstraint_init h x_in params name = Inr (s, hs)"
  proof -
    note f = SamplableConstraint_init_fields [OF init]
    let ?zs = "zip (convert_to_container x_in) (dict_values params)"
    have lz: "length ?zs = length params"
      using f(4) by (simp add: dict_values_def)
    have "list_all (\<lambda>z. snd z < length h) ?zs"
      using valid by (auto simp: list_all_iff dest: set_zip_rightD)
    from convert_observed_spec [OF this]
    have al: "list_all2 (observed_of h hs) ?zs (self_x s)"
      by (simp add: f(2,3))
    have "distinct (self_x s)"
      by (simp add: f(2) convert_observed_distinct)
    with al f(1) lz show ?thesis
      by (simp add: f(2) convert_observed_length)
  qed
  have b: "self_mu g = convert_to_container mu_in \<and>
      dict_values (self_params g) = self_mu g \<and>
      length (self_x g) = length (self_params g) \<and>
      distinct (self_x g) \<and>
      list_all2 (observed_of h hg) (zip (convert_to_container x_in) (self_mu g)) (self_x g)"
    if valid: "list_all (\<lambda>p. p < length h) (convert_to_container mu_in)"
      and init: "GaussianConstraint_init bk h x_in mu_in sigma = Inr (g, hg)"
  proof -
    note f = GaussianConstraint_init_fields [OF init]
    note v = GaussianConstraint_init_values [OF init]
    let ?zs = "zip (convert_to_container x_in) (convert_to_container mu_in)"
    have "list_all (\<lambda>z. snd z < length h) ?zs"
      using valid by (auto simp: list_all_iff dest: set_zip_rightD)
    from convert_observed_spec [OF this]
    have al: "list_all2 (observed_of h hg) ?zs (self_x g)"
      by (simp add: f(3,4))
    have "length (self_params g) = length (convert_to_container mu_in)"
      using v by (metis dict_values_def length_map)
    moreover have "distinct (self_x g)"
      by (simp add: f(3) convert_observed_distinct)
    ultimately show ?thesis
      using al f(5,6) v by simp
  qed
  have c: "x_property c = (self_x c, c)" "mu_property g2 = (self_mu g2, g2)"
    "snd (covariance h2 g2) = g2"
    by (simp_all add: x_property_def mu_property_def covariance_def)
  from a b c distribution_snd [of h2 d2] value_snd [of bk2 h2 d2] sample_snd [of bk2 h2 n d2]
  show ?thesis by blast
qed

theorem structural_state_witness:
  "\<exists>g hg. GaussianConstraint_init (ref_backend []) store_abc (Many [Lit 1, Ref 2]) (Many [0, 1])
             (Seq [Num 1, Num 1]) = Inr (g, hg) \<and>
     self_mu g = [0, 1] \<and>
     dict_values (self_params g) = [0, 1] \<and>
     length (self_x g) = 2 \<and>
     pname (hg ! (self_x g ! 0)) = ''a_obs'' \<and>
     psource (hg ! (self_x g ! 0)) = None \<and>
     pvalue (hg ! (self_x g ! 0)) = 1 \<and>
     pname (hg ! (self_x g ! 1)) = ''b_obs'' \<and>
     psource (hg ! (self_x g ! 1)) = Some 2 \<and>
     snd (value (ref_backend []) hg g) = g \<and>
     snd (sample (ref_backend []) hg 5 g) = g"
proof -
  let ?bk = "ref_backend [] :: mvn backend"
  obtain g hg where init: "GaussianConstraint_init ?bk store_abc (Many [Lit 1, Ref 2])
      (Many [0, 1]) (Seq [Num 1, Num 1]) = Inr (g, hg)"
    using GaussianConstraint_init_ex [of "Many [Lit 1, Ref 2]" "Many [0, 1]"] by fastforce
  have valid: "list_all (\<lambda>p. p < length store_abc) (convert_to_container (Many [0, 1]))"
    by (simp add: store_abc_def)
  from structural_state [where h = store_abc and x_in = "Many [Lit 1, Ref 2]"
      and mu_in = "Many [0, 1]" and bk = ?bk and sigma = "Seq [Num 1, Num 1]" and g = g
      and hg = hg and ?bk2.0 = ?bk and ?h2.0 = hg and ?d2.0 = g and n = 5] valid init
  have mu: "self_mu g = convert_to_container (Many [0, 1])"
    and dv: "dict_values (self_params g) = self_mu g"
    and al: "list_all2 (observed_of store_abc hg)
               (zip (convert_to_container (Many [Lit 1, Ref 2])) (self_mu g)) (self_x g)"
    and fr: "snd (value ?bk hg g) = g" "snd (sample ?bk hg 5 g) = g"
    by blast+
  from al mu obtain r0 r1 where sx: "self_x g = [r0, r1]"
    and o0: "observed_of store_abc hg (Lit 1, 0) r0"
    and o1: "observed_of store_abc hg (Ref 2, 1) r1"
    by (auto simp: list_all2_Cons1)
  from o0 have "pname (hg ! r0) = ''a_obs'' \<and> psource (hg ! r0) = None \<and> pvalue (hg ! r0) = 1"
    by (simp add: observed_of_def store_abc_def name_of_def)
  moreover from o1 have "pname (hg ! r1) = ''b_obs'' \<and> psource (hg ! r1) = Some 2"
    by (simp add: observed_of_def store_abc_def name_of_def)
  ultimately show ?thesis
    using init mu dv fr sx by (intro exI [of _ g] exI [of _ hg]) simp
qed

end
